theory Spec2Isabelle
  imports Main "HOL-Library.Sublist"
begin

section \<open>Configuration documents\<close>

text \<open>
  The configuration is what \<^verbatim>\<open>json.load\<close> returns: nested Python values. A dict keeps
  its items in document order, so an object is an association list (Python dicts have
  distinct keys; lookups take the first binding). A float is carried by its literal: the
  program never computes with a number.
\<close>

datatype json =
    JNull
  | JBool bool
  | JInt int
  | JFloat string
  | JStr string
  | JList "json list"
  | JObj "(string \<times> json) list"

text \<open>
  How a run of one coroutine can end early: a diagnostic followed by \<^verbatim>\<open>sys.exit(1)\<close>
  (one constructor of \<open>exit_reason\<close> per diagnostic of the source), an uncaught
  Python exception of the program's own, or an exception raised inside a collaborator
  (\<^verbatim>\<open>async_process_utils\<close>, \<^verbatim>\<open>async_fs_utils\<close>, the standard library).
\<close>

datatype exit_reason =
    RemotePathRequired
  | ImageInUse json
  | LocalImageMissing json
  | UnknownInterfaceType json
  | UnknownDisplayMode json
  | UnknownHostNetworkType json
  | JsonUnreadable

datatype error =
    SysExit exit_reason
  | KeyError string
  | TypeError
  | AttributeError
  | Raised

subsection \<open>Python operations on configuration values\<close>

text \<open>\<^verbatim>\<open>v[k]\<close> with a string key: only a dict accepts it.\<close>

fun py_getitem :: "json \<Rightarrow> string \<Rightarrow> error + json" where
  "py_getitem (JObj kvs) k = (case map_of kvs k of None \<Rightarrow> Inl (KeyError k) | Some v \<Rightarrow> Inr v)"
| "py_getitem _ k = Inl TypeError"

text \<open>\<^verbatim>\<open>v.get(k, d)\<close>: only a dict has the method.\<close>

fun py_get :: "json \<Rightarrow> string \<Rightarrow> json \<Rightarrow> error + json" where
  "py_get (JObj kvs) k d = (case map_of kvs k of None \<Rightarrow> Inr d | Some v \<Rightarrow> Inr v)"
| "py_get _ k d = Inl AttributeError"

text \<open>
  \<^verbatim>\<open>for x in v\<close>: a list yields its elements, a dict its keys, a string its characters
  (here its bytes, which is the same for ASCII); anything else is not iterable.
\<close>

fun py_iter :: "json \<Rightarrow> error + json list" where
  "py_iter (JList xs) = Inr xs"
| "py_iter (JObj kvs) = Inr (map (\<lambda>kv. JStr (fst kv)) kvs)"
| "py_iter (JStr s) = Inr (map (\<lambda>c. JStr [c]) s)"
| "py_iter _ = Inl TypeError"

definition digit_char :: "nat \<Rightarrow> char" where
  "digit_char d = ''0123456789'' ! d"

fun string_of_nat :: "nat \<Rightarrow> string" where
  "string_of_nat n =
     (if n < 10 then [digit_char n] else string_of_nat (n div 10) @ [digit_char (n mod 10)])"

declare string_of_nat.simps [simp del]

definition string_of_int :: "int \<Rightarrow> string" where
  "string_of_int i = (if i < 0 then ''-'' @ string_of_nat (nat (- i)) else string_of_nat (nat i))"

text \<open>\<^verbatim>\<open>' '.join(args)\<close>\<close>

fun join_sp :: "string list \<Rightarrow> string" where
  "join_sp [] = []"
| "join_sp [a] = a"
| "join_sp (a # b # rest) = a @ '' '' @ join_sp (b # rest)"

section \<open>Calls that leave the program\<close>

text \<open>
  The options \<^verbatim>\<open>run_single_command\<close> is called with; \<open>None\<close> is a keyword the call
  site leaves to the callee's default.
\<close>

record run_options =
  no_pipe :: "bool option"
  fail_on_returncode :: "bool option"
  asynchronous :: "bool option"
  disown :: "bool option"
  no_output :: "bool option"
  pty :: "bool option"

text \<open>The coroutines handed to \<^verbatim>\<open>asyncio.create_task\<close>, with their arguments.\<close>

datatype task =
    LaunchSingleVm json bool bool
  | RunVmsOnSingleHost json json json bool bool

text \<open>
  Every call a coroutine makes outside this file, in the order it makes them. The second
  argument of \<open>ValidateImageUse\<close> is the keyword \<^verbatim>\<open>kill_running_vms\<close>, \<open>None\<close> when
  the call site does not pass it. \<open>MacVtapCreate\<close> and its siblings stand for the
  constructor followed by \<^verbatim>\<open>create()\<close>; the number in \<open>MacVtapGetArgs\<close> and
  \<open>TapGetArgs\<close> is the slot index passed to \<^verbatim>\<open>get_args\<close>.
\<close>

datatype event =
    CheckFileExists json
  | ValidateImageUse json "bool option"
  | OsPathExists json
  | CopyToRemote json json
  | MacVtapCreate json
  | MacVtapGetArgs json nat
  | TapCreate json
  | TapGetArgs json nat
  | UserCreate json
  | UserGetArgs json
  | RunSingleCommand string run_options
  | BridgeCreate json
  | MacVlanCreate json
  | GetPass json
  | CreateConnection json
  | LoadJson string
  | CreateTask task

text \<open>
  What the collaborators answer. Each answer may depend on everything the coroutine has
  done so far (the trace before the call), which covers a remote host whose state changes
  under the calls; \<open>None\<close> means the collaborator raised. \<open>str_other\<close> is
  \<^verbatim>\<open>str\<close> on floats, lists and dicts.
\<close>

record env =
  ans_check_file_exists :: "event list \<Rightarrow> json \<Rightarrow> bool option"
  ans_validate_image_use :: "event list \<Rightarrow> json \<Rightarrow> bool option \<Rightarrow> bool option"
  ans_os_path_exists :: "event list \<Rightarrow> json \<Rightarrow> bool option"
  ans_copy_to_remote :: "event list \<Rightarrow> json \<Rightarrow> json \<Rightarrow> unit option"
  ans_macvtap_create :: "event list \<Rightarrow> json \<Rightarrow> unit option"
  ans_macvtap_get_args :: "event list \<Rightarrow> json \<Rightarrow> nat \<Rightarrow> string list option"
  ans_tap_create :: "event list \<Rightarrow> json \<Rightarrow> unit option"
  ans_tap_get_args :: "event list \<Rightarrow> json \<Rightarrow> nat \<Rightarrow> string list option"
  ans_user_create :: "event list \<Rightarrow> json \<Rightarrow> unit option"
  ans_user_get_args :: "event list \<Rightarrow> json \<Rightarrow> string list option"
  ans_run_single_command :: "event list \<Rightarrow> string \<Rightarrow> run_options \<Rightarrow> unit option"
  ans_bridge_create :: "event list \<Rightarrow> json \<Rightarrow> unit option"
  ans_macvlan_create :: "event list \<Rightarrow> json \<Rightarrow> unit option"
  ans_getpass :: "event list \<Rightarrow> json \<Rightarrow> unit option"
  ans_create_connection :: "event list \<Rightarrow> json \<Rightarrow> unit option"
  ans_load_json :: "event list \<Rightarrow> string \<Rightarrow> json option"
  os_getcwd :: string
  str_other :: "json \<Rightarrow> string"

text \<open>\<^verbatim>\<open>str(v)\<close>, also what an f-string puts for \<^verbatim>\<open>{v}\<close>.\<close>

fun py_str :: "env \<Rightarrow> json \<Rightarrow> string" where
  "py_str E (JStr s) = s"
| "py_str E (JInt i) = string_of_int i"
| "py_str E (JBool b) = (if b then ''True'' else ''False'')"
| "py_str E JNull = ''None''"
| "py_str E v = str_other E v"

text \<open>
  A coroutine takes the trace so far and returns its result, or the way it ended early,
  with the trace extended by the calls it made.
\<close>

type_synonym 'a io = "event list \<Rightarrow> (error + 'a) \<times> event list"

definition io_return :: "'a \<Rightarrow> 'a io" where
  "io_return x tr = (Inr x, tr)"

definition io_fail :: "error \<Rightarrow> 'a io" where
  "io_fail e tr = (Inl e, tr)"

definition io_lift :: "error + 'a \<Rightarrow> 'a io" where
  "io_lift r tr = (r, tr)"

definition io_bind :: "'a io \<Rightarrow> ('a \<Rightarrow> 'b io) \<Rightarrow> 'b io" where
  "io_bind m f tr = (case m tr of (Inl e, tr') \<Rightarrow> (Inl e, tr') | (Inr x, tr') \<Rightarrow> f x tr')"

definition call :: "event \<Rightarrow> 'a option \<Rightarrow> 'a io" where
  "call ev ans tr = (case ans of None \<Rightarrow> (Inl Raised, tr @ [ev]) | Some x \<Rightarrow> (Inr x, tr @ [ev]))"

definition check_file_exists :: "env \<Rightarrow> json \<Rightarrow> bool io" where
  "check_file_exists E p tr = call (CheckFileExists p) (ans_check_file_exists E tr p) tr"

definition validate_image_use :: "env \<Rightarrow> json \<Rightarrow> bool option \<Rightarrow> bool io" where
  "validate_image_use E p kill tr =
     call (ValidateImageUse p kill) (ans_validate_image_use E tr p kill) tr"

definition os_path_exists :: "env \<Rightarrow> json \<Rightarrow> bool io" where
  "os_path_exists E p tr = call (OsPathExists p) (ans_os_path_exists E tr p) tr"

definition copy_to_remote :: "env \<Rightarrow> json \<Rightarrow> json \<Rightarrow> unit io" where
  "copy_to_remote E l r tr = call (CopyToRemote l r) (ans_copy_to_remote E tr l r) tr"

definition macvtap_create :: "env \<Rightarrow> json \<Rightarrow> unit io" where
  "macvtap_create E i tr = call (MacVtapCreate i) (ans_macvtap_create E tr i) tr"

definition macvtap_get_args :: "env \<Rightarrow> json \<Rightarrow> nat \<Rightarrow> string list io" where
  "macvtap_get_args E i n tr = call (MacVtapGetArgs i n) (ans_macvtap_get_args E tr i n) tr"

definition tap_create :: "env \<Rightarrow> json \<Rightarrow> unit io" where
  "tap_create E i tr = call (TapCreate i) (ans_tap_create E tr i) tr"

definition tap_get_args :: "env \<Rightarrow> json \<Rightarrow> nat \<Rightarrow> string list io" where
  "tap_get_args E i n tr = call (TapGetArgs i n) (ans_tap_get_args E tr i n) tr"

definition user_create :: "env \<Rightarrow> json \<Rightarrow> unit io" where
  "user_create E i tr = call (UserCreate i) (ans_user_create E tr i) tr"

definition user_get_args :: "env \<Rightarrow> json \<Rightarrow> string list io" where
  "user_get_args E i tr = call (UserGetArgs i) (ans_user_get_args E tr i) tr"

definition run_single_command :: "env \<Rightarrow> string \<Rightarrow> run_options \<Rightarrow> unit io" where
  "run_single_command E c opts tr =
     call (RunSingleCommand c opts) (ans_run_single_command E tr c opts) tr"

definition bridge_create :: "env \<Rightarrow> json \<Rightarrow> unit io" where
  "bridge_create E i tr = call (BridgeCreate i) (ans_bridge_create E tr i) tr"

definition macvlan_create :: "env \<Rightarrow> json \<Rightarrow> unit io" where
  "macvlan_create E i tr = call (MacVlanCreate i) (ans_macvlan_create E tr i) tr"

definition getpass :: "env \<Rightarrow> json \<Rightarrow> unit io" where
  "getpass E h tr = call (GetPass h) (ans_getpass E tr h) tr"

definition create_connection_from_config :: "env \<Rightarrow> json \<Rightarrow> unit io" where
  "create_connection_from_config E c tr =
     call (CreateConnection c) (ans_create_connection E tr c) tr"

definition load_json :: "env \<Rightarrow> string \<Rightarrow> json option io" where
  "load_json E p tr = (Inr (ans_load_json E tr p), tr @ [LoadJson p])"

definition create_task :: "task \<Rightarrow> unit io" where
  "create_task t tr = (Inr (), tr @ [CreateTask t])"

section \<open>The program\<close>

subsection \<open>\<^verbatim>\<open>ensure_file_image\<close>\<close>

text \<open>
  Lines 17 to 38. The in-use probe is called without \<^verbatim>\<open>kill_running_vms\<close>. The
  diagnostics printed on the way are not modelled; the one that precedes each
  \<^verbatim>\<open>sys.exit(1)\<close> is the \<open>exit_reason\<close>.
\<close>

definition ensure_file_image :: "env \<Rightarrow> json \<Rightarrow> json \<Rightarrow> bool \<Rightarrow> unit io" where
  "ensure_file_image E local_path remote_path overwrite_image =
     (if remote_path = JStr [] then io_fail (SysExit RemotePathRequired)
      else
        io_bind (check_file_exists E remote_path) (\<lambda>file_exists.
        io_bind (if file_exists
                 then io_bind (validate_image_use E remote_path None) (\<lambda>ok.
                        if \<not> ok then io_fail (SysExit (ImageInUse remote_path))
                        else io_return ())
                 else io_return ()) (\<lambda>_.
        if overwrite_image \<or> \<not> file_exists
        then io_bind (os_path_exists E local_path) (\<lambda>local_exists.
               if local_exists then copy_to_remote E local_path remote_path
               else io_fail (SysExit (LocalImageMissing local_path)))
        else io_return ())))"

subsection \<open>\<^verbatim>\<open>launch_single_vm\<close>\<close>

text \<open>
  Lines 82 to 107, the loop over the value of the key \<^verbatim>\<open>interfaces\<close>: \<open>i\<close> is the
  slot counter, \<open>args\<close> the argument vector under construction. The \<^verbatim>\<open>match\<close>
  compares \<^verbatim>\<open>interface["type"]\<close> with each literal in turn.
\<close>

fun interfaces_loop :: "env \<Rightarrow> json list \<Rightarrow> nat \<Rightarrow> string list \<Rightarrow> string list io" where
  "interfaces_loop E [] i args = io_return args"
| "interfaces_loop E (interface # rest) i args =
     io_bind (io_lift (py_getitem interface ''type'')) (\<lambda>ty.
       if ty = JStr ''macvtap'' then
         io_bind (macvtap_create E interface) (\<lambda>_.
         io_bind (macvtap_get_args E interface i) (\<lambda>frag.
         interfaces_loop E rest (i + 1) (args @ frag)))
       else if ty = JStr ''tap'' then
         io_bind (tap_create E interface) (\<lambda>_.
         io_bind (tap_get_args E interface i) (\<lambda>frag.
         interfaces_loop E rest (i + 1) (args @ frag)))
       else if ty = JStr ''user'' then
         io_bind (user_create E interface) (\<lambda>_.
         io_bind (user_get_args E interface) (\<lambda>frag.
         interfaces_loop E rest i (args @ frag)))
       else io_fail (SysExit (UnknownInterfaceType ty)))"

text \<open>
  Lines 62 to 120, the loop over \<^verbatim>\<open>vm_configuration.items()\<close> in document order.
  \<open>display_mode\<close> is the local variable of that name, \<^verbatim>\<open>""\<close> at the start.
\<close>

fun config_loop ::
  "env \<Rightarrow> (string \<times> json) list \<Rightarrow> string list \<Rightarrow> string \<Rightarrow> (string list \<times> string) io" where
  "config_loop E [] args display_mode = io_return (args, display_mode)"
| "config_loop E ((key, v) # rest) args display_mode =
     (if key = ''memory'' then
        config_loop E rest (args @ [''-m'', py_str E v]) display_mode
      else if key = ''cpu_count'' then
        config_loop E rest (args @ [''-smp'', py_str E v]) display_mode
      else if key = ''virtfs_path'' then
        (let path = (if v = JStr ''{pwd}'' then JStr (os_getcwd E) else v) in
         config_loop E rest
           (args @ [''-virtfs'', ''local,path='' @ py_str E path @
                      '',security_model=mapped-xattr,mount_tag=share,id=share''])
           display_mode)
      else if key = ''interfaces'' then
        io_bind (io_lift (py_iter v)) (\<lambda>interfaces.
        io_bind (interfaces_loop E interfaces 4 args) (\<lambda>args'.
        config_loop E rest args' display_mode))
      else if key = ''display_mode'' then
        (if v = JStr ''background'' then
           config_loop E rest (args @ [''-vga'', ''none'', ''-serial'', ''none'', ''-nographic''])
             ''background''
         else if v = JStr ''terminal'' then
           config_loop E rest (args @ [''-vga'', ''none'', ''-nographic'']) display_mode
         else if v = JStr ''graphic'' then
           config_loop E rest (args @ [''-vga'', ''virtio'']) ''graphic''
         else io_fail (SysExit (UnknownDisplayMode v)))
      else config_loop E rest args display_mode)"

text \<open>The second element of a \<^verbatim>\<open>-drive\<close> pair (lines 129 and 137).\<close>

definition drive_fragment :: "env \<Rightarrow> json \<Rightarrow> nat \<Rightarrow> string" where
  "drive_fragment E remote_path drive_number =
     ''file='' @ py_str E remote_path @ '',format=qcow2,if=virtio,index='' @
     string_of_nat drive_number @ '',media=disk''"

text \<open>Lines 132 to 138, the loop over \<^verbatim>\<open>additional_disk_images\<close>.\<close>

fun additional_disks_loop ::
  "env \<Rightarrow> json list \<Rightarrow> bool \<Rightarrow> nat \<Rightarrow> string list \<Rightarrow> string list io" where
  "additional_disks_loop E [] overwrite_image drive_number args = io_return args"
| "additional_disks_loop E (v # rest) overwrite_image drive_number args =
     io_bind (io_lift (py_get v ''local_disk_image_path'' (JStr []))) (\<lambda>local_path.
     io_bind (io_lift (py_get v ''remote_disk_image_path'' (JStr []))) (\<lambda>remote_path.
     io_bind (ensure_file_image E local_path remote_path overwrite_image) (\<lambda>_.
     additional_disks_loop E rest overwrite_image (drive_number + 1)
       (args @ [''-drive'', drive_fragment E remote_path drive_number]))))"

text \<open>\<^verbatim>\<open>d.items()\<close>\<close>

fun py_items :: "json \<Rightarrow> error + (string \<times> json) list" where
  "py_items (JObj kvs) = Inr kvs"
| "py_items _ = Inl AttributeError"

text \<open>
  Lines 53 to 60: the probes of the primary disk, the in-use probe with
  \<^verbatim>\<open>kill_running_vms\<close> passed on.
\<close>

definition probe_primary :: "env \<Rightarrow> json \<Rightarrow> bool \<Rightarrow> unit io" where
  "probe_primary E vm_configuration kill_running_vms =
     io_bind (io_lift (py_getitem vm_configuration ''remote_disk_image_path'')) (\<lambda>remote.
     io_bind (check_file_exists E remote) (\<lambda>file_exists.
     if file_exists
     then io_bind (validate_image_use E remote (Some kill_running_vms)) (\<lambda>ok.
            if \<not> ok then io_fail (SysExit (ImageInUse remote)) else io_return ())
     else io_return ()))"

text \<open>
  Lines 122 to 138: the check of the primary path, then one \<^verbatim>\<open>ensure_file_image\<close> and
  one \<^verbatim>\<open>-drive\<close> pair per disk. \<open>drive_number\<close> is 0 for the primary disk, so the
  loop over the additional disks starts at 1.
\<close>

definition stage_disks :: "env \<Rightarrow> json \<Rightarrow> bool \<Rightarrow> string list \<Rightarrow> string list io" where
  "stage_disks E vm_configuration overwrite_image args =
     io_bind (io_lift (py_get vm_configuration ''remote_disk_image_path'' (JStr []))) (\<lambda>r.
     if r = JStr [] then io_fail (SysExit RemotePathRequired)
     else
       io_bind (io_lift (py_get vm_configuration ''local_disk_image_path'' (JStr []))) (\<lambda>local_path.
       io_bind (io_lift (py_getitem vm_configuration ''remote_disk_image_path'')) (\<lambda>remote_path.
       io_bind (ensure_file_image E local_path remote_path overwrite_image) (\<lambda>_.
       io_bind (io_lift (py_get vm_configuration ''additional_disk_images'' (JList []))) (\<lambda>extra.
       io_bind (io_lift (py_iter extra)) (\<lambda>vs.
       additional_disks_loop E vs overwrite_image 1
         (args @ [''-drive'', drive_fragment E remote_path 0])))))))"

text \<open>
  Lines 47 to 138 of \<^verbatim>\<open>launch_single_vm\<close>: everything before the hypervisor is started.
  The result is the argument vector and the local variable \<^verbatim>\<open>display_mode\<close>.
\<close>

definition build_args :: "env \<Rightarrow> json \<Rightarrow> bool \<Rightarrow> bool \<Rightarrow> (string list \<times> string) io" where
  "build_args E vm_configuration overwrite_image kill_running_vms =
     io_bind (probe_primary E vm_configuration kill_running_vms) (\<lambda>_.
     io_bind (io_lift (py_items vm_configuration)) (\<lambda>items.
     io_bind (config_loop E items [''-accel'', ''kvm'', ''-cpu'', ''max''] []) (\<lambda>(args, display_mode).
     io_bind (stage_disks E vm_configuration overwrite_image args) (\<lambda>args'.
     io_return (args', display_mode)))))"

text \<open>The two ways the hypervisor is started (lines 142 to 145).\<close>

definition detached_discipline :: run_options where
  "detached_discipline =
     \<lparr>no_pipe = Some True, fail_on_returncode = Some True, asynchronous = Some False,
      disown = Some True, no_output = Some True, pty = None\<rparr>"

definition blocking_pty_discipline :: run_options where
  "blocking_pty_discipline =
     \<lparr>no_pipe = Some False, fail_on_returncode = Some True, asynchronous = Some False,
      disown = Some False, no_output = None, pty = Some True\<rparr>"

definition binary :: string where
  "binary = ''qemu-system-x86_64''"

definition command_line :: "string list \<Rightarrow> string" where
  "command_line args = binary @ '' '' @ join_sp args"

definition launch_single_vm :: "env \<Rightarrow> json \<Rightarrow> bool \<Rightarrow> bool \<Rightarrow> unit io" where
  "launch_single_vm E vm_configuration overwrite_image kill_running_vms =
     io_bind (build_args E vm_configuration overwrite_image kill_running_vms)
       (\<lambda>(args, display_mode).
          if display_mode = ''background'' \<or> display_mode = ''graphic''
          then run_single_command E (command_line args) detached_discipline
          else run_single_command E (command_line args) blocking_pty_discipline)"

subsection \<open>Hosts\<close>

text \<open>Lines 148 to 160.\<close>

fun setup_host_network_loop :: "env \<Rightarrow> json list \<Rightarrow> unit io" where
  "setup_host_network_loop E [] = io_return ()"
| "setup_host_network_loop E (iface # rest) =
     io_bind (io_lift (py_getitem iface ''type'')) (\<lambda>ty.
       if ty = JStr ''bridge'' then
         io_bind (bridge_create E iface) (\<lambda>_. setup_host_network_loop E rest)
       else if ty = JStr ''macvlan'' then
         io_bind (macvlan_create E iface) (\<lambda>_. setup_host_network_loop E rest)
       else io_fail (SysExit (UnknownHostNetworkType ty)))"

definition setup_host_network :: "env \<Rightarrow> json \<Rightarrow> unit io" where
  "setup_host_network E host_network =
     io_bind (io_lift (py_iter host_network)) (\<lambda>ifaces. setup_host_network_loop E ifaces)"

text \<open>
  Lines 176 to 181: one session and one task per VM. A task is recorded with the
  arguments of its coroutine; tasks run concurrently under the event loop, each with the
  calls of \<open>launch_single_vm\<close> above.
\<close>

fun spawn_vms_loop :: "env \<Rightarrow> json list \<Rightarrow> json \<Rightarrow> bool \<Rightarrow> bool \<Rightarrow> unit io" where
  "spawn_vms_loop E [] ssh_configuration overwrite_image kill_running_vms = io_return ()"
| "spawn_vms_loop E (vm_configuration # rest) ssh_configuration overwrite_image kill_running_vms =
     io_bind (create_connection_from_config E ssh_configuration) (\<lambda>_.
     io_bind (create_task (LaunchSingleVm vm_configuration overwrite_image kill_running_vms)) (\<lambda>_.
     spawn_vms_loop E rest ssh_configuration overwrite_image kill_running_vms))"

text \<open>
  Lines 163 to 181 of \<^verbatim>\<open>run_vms_on_single_host\<close>, up to the \<^verbatim>\<open>gather\<close>. \<open>JNull\<close>
  is Python's \<^verbatim>\<open>None\<close>.
\<close>

definition run_vms_on_single_host ::
  "env \<Rightarrow> json \<Rightarrow> json \<Rightarrow> json \<Rightarrow> bool \<Rightarrow> bool \<Rightarrow> unit io" where
  "run_vms_on_single_host E vms host_network ssh_configuration overwrite_image kill_running_vms =
     io_bind (io_lift (py_get ssh_configuration ''host'' JNull)) (\<lambda>host.
     io_bind (getpass E host) (\<lambda>_.
     io_bind (if host_network \<noteq> JNull
              then io_bind (create_connection_from_config E ssh_configuration) (\<lambda>_.
                     setup_host_network E host_network)
              else io_return ()) (\<lambda>_.
     io_bind (io_lift (py_iter vms)) (\<lambda>vs.
     spawn_vms_loop E vs ssh_configuration overwrite_image kill_running_vms))))"

subsection \<open>\<^verbatim>\<open>main\<close>\<close>

text \<open>What \<^verbatim>\<open>parse_args\<close> returns: the whole command-line surface.\<close>

record cli =
  json_path :: string
  overwrite_image_flag :: bool

text \<open>Lines 212 to 219.\<close>

fun spawn_hosts_loop :: "json list \<Rightarrow> bool \<Rightarrow> unit io" where
  "spawn_hosts_loop [] overwrite_image = io_return ()"
| "spawn_hosts_loop (host_configuration # rest) overwrite_image =
     io_bind (io_lift (py_get host_configuration ''host'' JNull)) (\<lambda>_.
     io_bind (io_lift (py_get host_configuration ''vms'' (JList []))) (\<lambda>vms.
     io_bind (io_lift (py_get host_configuration ''host_network'' JNull)) (\<lambda>host_network.
     io_bind (io_lift (py_get host_configuration ''ssh_config'' JNull)) (\<lambda>ssh_config.
     io_bind (create_task (RunVmsOnSingleHost vms host_network ssh_config overwrite_image True)) (\<lambda>_.
     spawn_hosts_loop rest overwrite_image)))))"

text \<open>Lines 200 to 219 of \<^verbatim>\<open>main\<close>, up to the \<^verbatim>\<open>gather\<close>.\<close>

definition main :: "env \<Rightarrow> cli \<Rightarrow> unit io" where
  "main E args =
     io_bind (load_json E (json_path args)) (\<lambda>loaded.
       case loaded of
         None \<Rightarrow> io_fail (SysExit JsonUnreadable)
       | Some configuration \<Rightarrow>
           io_bind (io_lift (py_iter configuration)) (\<lambda>hosts.
           spawn_hosts_loop hosts (overwrite_image_flag args)))"

section \<open>A sample host and sample documents\<close>

text \<open>A VM with one disk and the given \<^verbatim>\<open>display_mode\<close>, or none.\<close>

definition display_cfg :: "json option \<Rightarrow> (string \<times> json) list" where
  "display_cfg mode =
     (case mode of None \<Rightarrow> [] | Some v \<Rightarrow> [(''display_mode'', v)]) @
     [(''remote_disk_image_path'', JStr ''vm.qcow2'')]"

text \<open>The SSH configuration of the sample host.\<close>

definition sample_ssh :: json where
  "sample_ssh = JObj [(''host'', JStr ''host1'')]"

text \<open>The document the sample host loads: one host with one VM.\<close>

definition sample_document :: json where
  "sample_document =
     JList [JObj [(''vms'', JList [JObj (display_cfg None)]), (''ssh_config'', sample_ssh)]]"

text \<open>
  A host to run the program on: the remote image is \<open>present\<close> or not, \<open>busy\<close>
  (held by a hypervisor process) or not, the local sources exist or not. A busy image is
  released by an in-use probe that is asked to kill the owner, and stays released.
\<close>

definition sample_env :: "bool \<Rightarrow> bool \<Rightarrow> bool \<Rightarrow> env" where
  "sample_env present busy local_present =
     \<lparr>ans_check_file_exists = (\<lambda>tr p. Some present),
      ans_validate_image_use =
        (\<lambda>tr p kill. Some (\<not> busy \<or> kill = Some True \<or> ValidateImageUse p (Some True) \<in> set tr)),
      ans_os_path_exists = (\<lambda>tr p. Some local_present),
      ans_copy_to_remote = (\<lambda>tr l r. Some ()),
      ans_macvtap_create = (\<lambda>tr i. Some ()),
      ans_macvtap_get_args = (\<lambda>tr i n. Some [''-macvtap'', string_of_nat n]),
      ans_tap_create = (\<lambda>tr i. Some ()),
      ans_tap_get_args = (\<lambda>tr i n. Some [''-tap'', string_of_nat n]),
      ans_user_create = (\<lambda>tr i. Some ()),
      ans_user_get_args = (\<lambda>tr i. Some [''-nic'', ''user'']),
      ans_run_single_command = (\<lambda>tr c opts. Some ()),
      ans_bridge_create = (\<lambda>tr i. Some ()),
      ans_macvlan_create = (\<lambda>tr i. Some ()),
      ans_getpass = (\<lambda>tr h. Some ()),
      ans_create_connection = (\<lambda>tr c. Some ()),
      ans_load_json = (\<lambda>tr p. Some sample_document),
      os_getcwd = ''/home/user'',
      str_other = (\<lambda>v. ''?'')\<rparr>"

definition iface :: "string \<Rightarrow> json" where
  "iface ty = JObj [(''type'', JStr ty)]"

text \<open>A VM with three interfaces, a graphical display and two disks.\<close>

definition sample_interfaces :: "json list" where
  "sample_interfaces = [iface ''tap'', iface ''user'', iface ''macvtap'']"

definition sample_cfg :: "(string \<times> json) list" where
  "sample_cfg =
     [(''memory'', JInt 4096),
      (''interfaces'', JList sample_interfaces),
      (''display_mode'', JStr ''graphic''),
      (''remote_disk_image_path'', JStr ''vm.qcow2''),
      (''local_disk_image_path'', JStr ''local.qcow2''),
      (''additional_disk_images'',
         JList [JObj [(''remote_disk_image_path'', JStr ''data.qcow2''),
                      (''local_disk_image_path'', JStr ''seed.qcow2'')]])]"

text \<open>What the sample VM gives on a host where no image is present yet.\<close>

definition sample_args :: "string list" where
  "sample_args =
     [''-accel'', ''kvm'', ''-cpu'', ''max'', ''-m'', ''4096'', ''-tap'', ''4'',
      ''-nic'', ''user'', ''-macvtap'', ''5'', ''-vga'', ''virtio'',
      ''-drive'', ''file=vm.qcow2,format=qcow2,if=virtio,index=0,media=disk'',
      ''-drive'', ''file=data.qcow2,format=qcow2,if=virtio,index=1,media=disk'']"

definition sample_trace :: "event list" where
  "sample_trace =
     [CheckFileExists (JStr ''vm.qcow2''),
      TapCreate (iface ''tap''), TapGetArgs (iface ''tap'') 4,
      UserCreate (iface ''user''), UserGetArgs (iface ''user''),
      MacVtapCreate (iface ''macvtap''), MacVtapGetArgs (iface ''macvtap'') 5,
      CheckFileExists (JStr ''vm.qcow2''), OsPathExists (JStr ''local.qcow2''),
      CopyToRemote (JStr ''local.qcow2'') (JStr ''vm.qcow2''),
      CheckFileExists (JStr ''data.qcow2''), OsPathExists (JStr ''seed.qcow2''),
      CopyToRemote (JStr ''seed.qcow2'') (JStr ''data.qcow2'')]"

text \<open>The calls it makes before the hypervisor starts, on a host where the image is present and idle.\<close>

definition display_trace :: "event list" where
  "display_trace =
     [CheckFileExists (JStr ''vm.qcow2''), ValidateImageUse (JStr ''vm.qcow2'') (Some True),
      CheckFileExists (JStr ''vm.qcow2''), ValidateImageUse (JStr ''vm.qcow2'') None]"

definition display_args :: "string list \<Rightarrow> string list" where
  "display_args fragment =
     [''-accel'', ''kvm'', ''-cpu'', ''max''] @ fragment @
     [''-drive'', ''file=vm.qcow2,format=qcow2,if=virtio,index=0,media=disk'']"

text \<open>A VM whose primary path is empty, and one with an interface of an unknown type.\<close>

definition empty_path_cfg :: "(string \<times> json) list" where
  "empty_path_cfg =
     [(''interfaces'', JList [iface ''tap'']), (''remote_disk_image_path'', JStr [])]"

definition wifi_cfg :: "(string \<times> json) list" where
  "wifi_cfg =
     [(''remote_disk_image_path'', JStr ''vm.qcow2''),
      (''interfaces'', JList [iface ''tap'', iface ''wifi''])]"

section \<open>Observations on traces\<close>

text \<open>The calls a coroutine makes when started after the trace \<open>tr\<close>.\<close>

definition calls_made :: "'a io \<Rightarrow> event list \<Rightarrow> event list" where
  "calls_made m tr = drop (length tr) (snd (m tr))"

text \<open>The bulk transfers among a list of calls.\<close>

fun is_transfer :: "event \<Rightarrow> bool" where
  "is_transfer (CopyToRemote l r) = True"
| "is_transfer _ = False"

definition transfers :: "event list \<Rightarrow> event list" where
  "transfers evs = filter is_transfer evs"

text \<open>The starts of a hypervisor.\<close>

fun is_launch :: "event \<Rightarrow> bool" where
  "is_launch (RunSingleCommand c opts) = True"
| "is_launch _ = False"

text \<open>The slot passed to \<^verbatim>\<open>get_args\<close>, with the interface it is passed for.\<close>

fun slot_of :: "event \<Rightarrow> (json \<times> nat) list" where
  "slot_of (MacVtapGetArgs i n) = [(i, n)]"
| "slot_of (TapGetArgs i n) = [(i, n)]"
| "slot_of _ = []"

definition slot_assignments :: "event list \<Rightarrow> (json \<times> nat) list" where
  "slot_assignments evs = concat (map slot_of evs)"

text \<open>An entry of \<^verbatim>\<open>interfaces\<close> of type macvtap or tap.\<close>

definition vm_attached :: "json \<Rightarrow> bool" where
  "vm_attached interface =
     (py_getitem interface ''type'' = Inr (JStr ''macvtap'') \<or>
      py_getitem interface ''type'' = Inr (JStr ''tap''))"

text \<open>The kinds of calls each part of \<^verbatim>\<open>launch_single_vm\<close> makes.\<close>

fun is_probe_event :: "event \<Rightarrow> bool" where
  "is_probe_event (CheckFileExists p) = True"
| "is_probe_event (ValidateImageUse p k) = True"
| "is_probe_event _ = False"

fun is_interface_event :: "event \<Rightarrow> bool" where
  "is_interface_event (MacVtapCreate i) = True"
| "is_interface_event (MacVtapGetArgs i n) = True"
| "is_interface_event (TapCreate i) = True"
| "is_interface_event (TapGetArgs i n) = True"
| "is_interface_event (UserCreate i) = True"
| "is_interface_event (UserGetArgs i) = True"
| "is_interface_event _ = False"

fun is_disk_event :: "event \<Rightarrow> bool" where
  "is_disk_event (CheckFileExists p) = True"
| "is_disk_event (ValidateImageUse p k) = True"
| "is_disk_event (OsPathExists p) = True"
| "is_disk_event (CopyToRemote l r) = True"
| "is_disk_event _ = False"

text \<open>The calls made before the disks are staged: lines 53 to 120.\<close>

definition is_setup_event :: "event \<Rightarrow> bool" where
  "is_setup_event ev = (is_probe_event ev \<or> is_interface_event ev)"

text \<open>The interface types the \<^verbatim>\<open>match\<close> of lines 83 to 107 knows.\<close>

definition supported_type :: "json \<Rightarrow> bool" where
  "supported_type ty = (ty = JStr ''macvtap'' \<or> ty = JStr ''tap'' \<or> ty = JStr ''user'')"

text \<open>An entry of \<^verbatim>\<open>interfaces\<close> that has a type, and one the \<^verbatim>\<open>match\<close> knows.\<close>

definition supported_entry :: "json \<Rightarrow> bool" where
  "supported_entry interface =
     (case py_getitem interface ''type'' of Inl e \<Rightarrow> False | Inr ty \<Rightarrow> supported_type ty)"

text \<open>
  The interfaces created among a list of calls, in the order of their creation: the
  argument of each \<^verbatim>\<open>MacVtap\<close>, \<^verbatim>\<open>Tap\<close> or \<^verbatim>\<open>User\<close> that was constructed and
  told to \<^verbatim>\<open>create()\<close>.
\<close>

fun created_of :: "event \<Rightarrow> json list" where
  "created_of (MacVtapCreate i) = [i]"
| "created_of (TapCreate i) = [i]"
| "created_of (UserCreate i) = [i]"
| "created_of _ = []"

definition interfaces_created :: "event list \<Rightarrow> json list" where
  "interfaces_created evs = concat (map created_of evs)"

text \<open>
  The entries of a configuration that the loop of lines 62 to 120 passes before it first
  meets the key \<open>k\<close>.
\<close>

definition keys_before :: "string \<Rightarrow> (string \<times> json) list \<Rightarrow> (string \<times> json) list" where
  "keys_before k kvs = takeWhile (\<lambda>kv. fst kv \<noteq> k) kvs"

text \<open>
  The flags \<^verbatim>\<open>overwrite_image\<close> and \<^verbatim>\<open>kill_running_vms\<close> a task is created with: of
  a host task, and of a VM task.
\<close>

fun host_task_flags :: "event \<Rightarrow> (bool \<times> bool) list" where
  "host_task_flags (CreateTask (RunVmsOnSingleHost vms hn ssh ow kill)) = [(ow, kill)]"
| "host_task_flags _ = []"

fun vm_task_flags :: "event \<Rightarrow> (bool \<times> bool) list" where
  "vm_task_flags (CreateTask (LaunchSingleVm vm ow kill)) = [(ow, kill)]"
| "vm_task_flags _ = []"

text \<open>A coroutine that only extends the trace, and only by calls of one kind.\<close>

definition emits :: "(event \<Rightarrow> bool) \<Rightarrow> 'a io \<Rightarrow> bool" where
  "emits P m = (\<forall>tr. \<exists>evs. snd (m tr) = tr @ evs \<and> list_all P evs)"

text \<open>A function applied to the result of a run.\<close>

definition map_out :: "('a \<Rightarrow> 'b) \<Rightarrow> (error + 'a) \<times> event list \<Rightarrow> (error + 'b) \<times> event list" where
  "map_out f rt = (case rt of (Inl e, t) \<Rightarrow> (Inl e, t) | (Inr x, t) \<Rightarrow> (Inr (f x), t))"

text \<open>
  The \<^verbatim>\<open>-drive\<close> pairs for a list of remote paths, numbered from \<open>n\<close>, and the remote
  paths of the disks of a configuration: the primary disk, then the additional ones.
\<close>

fun drive_args :: "env \<Rightarrow> nat \<Rightarrow> json list \<Rightarrow> string list" where
  "drive_args E n [] = []"
| "drive_args E n (p # ps) = [''-drive'', drive_fragment E p n] @ drive_args E (n + 1) ps"

definition remote_of :: "json \<Rightarrow> json" where
  "remote_of v = (case py_get v ''remote_disk_image_path'' (JStr []) of Inr p \<Rightarrow> p | Inl e \<Rightarrow> JStr [])"

definition disk_paths :: "(string \<times> json) list \<Rightarrow> json list" where
  "disk_paths cfg =
     (case map_of cfg ''remote_disk_image_path'' of None \<Rightarrow> [] | Some p \<Rightarrow> [p]) @
     (case map_of cfg ''additional_disk_images'' of
        None \<Rightarrow> []
      | Some extra \<Rightarrow> (case py_iter extra of Inl e \<Rightarrow> [] | Inr vs \<Rightarrow> map remote_of vs))"

text \<open>
  One pass of the loop of lines 62 to 120 for a key other than \<^verbatim>\<open>interfaces\<close>: it
  makes no call, so it is a function of the key, the value and the two variables.
\<close>

definition key_step ::
  "env \<Rightarrow> string \<Rightarrow> json \<Rightarrow> string list \<Rightarrow> string \<Rightarrow> error + string list \<times> string" where
  "key_step E key v args display_mode =
     (if key = ''memory'' then Inr (args @ [''-m'', py_str E v], display_mode)
      else if key = ''cpu_count'' then Inr (args @ [''-smp'', py_str E v], display_mode)
      else if key = ''virtfs_path'' then
        Inr (args @ [''-virtfs'', ''local,path='' @
                       py_str E (if v = JStr ''{pwd}'' then JStr (os_getcwd E) else v) @
                       '',security_model=mapped-xattr,mount_tag=share,id=share''],
             display_mode)
      else if key = ''display_mode'' then
        (if v = JStr ''background'' then
           Inr (args @ [''-vga'', ''none'', ''-serial'', ''none'', ''-nographic''], ''background'')
         else if v = JStr ''terminal'' then
           Inr (args @ [''-vga'', ''none'', ''-nographic''], display_mode)
         else if v = JStr ''graphic'' then
           Inr (args @ [''-vga'', ''virtio''], ''graphic'')
         else Inl (SysExit (UnknownDisplayMode v)))
      else Inr (args, display_mode))"

section \<open>Runs and their traces\<close>

lemmas io_defs = io_return_def io_fail_def io_lift_def io_bind_def call_def

lemmas call_defs = check_file_exists_def validate_image_use_def os_path_exists_def
  copy_to_remote_def macvtap_create_def macvtap_get_args_def tap_create_def tap_get_args_def
  user_create_def user_get_args_def run_single_command_def bridge_create_def
  macvlan_create_def getpass_def create_connection_from_config_def load_json_def
  create_task_def

lemma emits_return: "emits P (io_return x)"
  by (simp add: emits_def io_return_def)

lemma emits_fail: "emits P (io_fail e)"
  by (simp add: emits_def io_fail_def)

lemma emits_lift: "emits P (io_lift r)"
  by (simp add: emits_def io_lift_def)

lemma emits_bind:
  assumes "emits P m" and "\<And>x. emits P (f x)"
  shows "emits P (io_bind m f)"
  unfolding emits_def
proof
  fix tr
  from assms(1) obtain evs where m: "snd (m tr) = tr @ evs" "list_all P evs"
    unfolding emits_def by blast
  show "\<exists>evs. snd (io_bind m f tr) = tr @ evs \<and> list_all P evs"
  proof (cases "m tr")
    case (Pair r tr1)
    with m have tr1: "tr1 = tr @ evs" by simp
    show ?thesis
    proof (cases r)
      case (Inl e)
      with Pair m show ?thesis by (auto simp: io_bind_def)
    next
      case (Inr x)
      from assms(2) obtain evs' where "snd (f x tr1) = tr1 @ evs'" "list_all P evs'"
        unfolding emits_def by blast
      with Pair Inr tr1 m show ?thesis by (auto simp: io_bind_def)
    qed
  qed
qed

lemma emits_if: "emits P a \<Longrightarrow> emits P b \<Longrightarrow> emits P (if c then a else b)"
  by simp

lemma emits_calls:
  "P (CheckFileExists p) \<Longrightarrow> emits P (check_file_exists E p)"
  "P (ValidateImageUse p k) \<Longrightarrow> emits P (validate_image_use E p k)"
  "P (OsPathExists p) \<Longrightarrow> emits P (os_path_exists E p)"
  "P (CopyToRemote l r) \<Longrightarrow> emits P (copy_to_remote E l r)"
  "P (MacVtapCreate i) \<Longrightarrow> emits P (macvtap_create E i)"
  "P (MacVtapGetArgs i n) \<Longrightarrow> emits P (macvtap_get_args E i n)"
  "P (TapCreate i) \<Longrightarrow> emits P (tap_create E i)"
  "P (TapGetArgs i n) \<Longrightarrow> emits P (tap_get_args E i n)"
  "P (UserCreate i) \<Longrightarrow> emits P (user_create E i)"
  "P (UserGetArgs i) \<Longrightarrow> emits P (user_get_args E i)"
  "P (RunSingleCommand c opts) \<Longrightarrow> emits P (run_single_command E c opts)"
  by (simp_all add: emits_def call_defs call_def split: option.split)

lemma emits_ensure: "emits is_disk_event (ensure_file_image E l r ow)"
  unfolding ensure_file_image_def
  by (intro emits_if emits_bind emits_fail emits_return emits_calls) simp_all

lemma emits_additional: "emits is_disk_event (additional_disks_loop E vs ow n args)"
proof (induction vs arbitrary: n args)
  case Nil
  show ?case by (simp add: emits_return)
next
  case (Cons v vs)
  show ?case unfolding additional_disks_loop.simps
    by (intro emits_bind emits_lift emits_ensure Cons.IH)
qed

lemma emits_stage: "emits is_disk_event (stage_disks E vm ow args)"
  unfolding stage_disks_def
  by (intro emits_if emits_bind emits_fail emits_return emits_lift emits_ensure emits_additional)

lemma emits_interfaces: "emits is_interface_event (interfaces_loop E ifs i args)"
proof (induction ifs arbitrary: i args)
  case Nil
  show ?case by (simp add: emits_return)
next
  case (Cons x ifs)
  show ?case unfolding interfaces_loop.simps
    by (intro emits_bind emits_if emits_lift emits_fail emits_calls Cons.IH) simp_all
qed

lemma emits_config: "emits is_interface_event (config_loop E kvs args dm)"
proof (induction kvs arbitrary: args dm)
  case Nil
  show ?case by (simp add: emits_return)
next
  case (Cons kv kvs)
  obtain key v where kv: "kv = (key, v)" by (cases kv)
  show ?case unfolding kv config_loop.simps Let_def
    by (intro emits_bind emits_if emits_lift emits_fail emits_interfaces Cons.IH)
qed

lemma emits_probe: "emits is_probe_event (probe_primary E vm kill)"
  unfolding probe_primary_def
  by (intro emits_if emits_bind emits_fail emits_return emits_lift emits_calls) simp_all

lemma io_bind_Inr:
  "io_bind m f tr = (Inr y, tr') \<longleftrightarrow> (\<exists>x tr1. m tr = (Inr x, tr1) \<and> f x tr1 = (Inr y, tr'))"
  by (auto simp: io_bind_def split: prod.splits sum.splits)

lemma io_lift_Inr: "io_lift r tr = (Inr x, tr') \<longleftrightarrow> r = Inr x \<and> tr' = tr"
  by (auto simp: io_lift_def)

lemma io_return_Inr: "io_return x tr = (Inr y, tr') \<longleftrightarrow> y = x \<and> tr' = tr"
  by (auto simp: io_return_def)

lemma io_fail_Inr: "io_fail e tr = (Inr y, tr') \<longleftrightarrow> False"
  by (simp add: io_fail_def)

lemma call_Inr: "call ev ans tr = (Inr x, tr') \<longleftrightarrow> ans = Some x \<and> tr' = tr @ [ev]"
  by (auto simp: call_def split: option.splits)

lemmas io_Inr = io_bind_Inr io_lift_Inr io_return_Inr io_fail_Inr call_Inr

lemma emitsD: "emits P m \<Longrightarrow> m tr = (r, tr') \<Longrightarrow> \<exists>evs. tr' = tr @ evs \<and> list_all P evs"
  unfolding emits_def by (metis snd_conv)


lemma config_loop_Cons:
  "config_loop E ((key, v) # rest) args dm =
     (if key = ''interfaces'' then
        io_bind (io_lift (py_iter v)) (\<lambda>interfaces.
        io_bind (interfaces_loop E interfaces 4 args) (\<lambda>args'.
        config_loop E rest args' dm))
      else (case key_step E key v args dm of
              Inl e \<Rightarrow> io_fail e
            | Inr (args', dm') \<Rightarrow> config_loop E rest args' dm'))"
  by (simp add: key_step_def Let_def)


section \<open>The sample run\<close>

lemma build_sample:
  "build_args (sample_env False False True) (JObj sample_cfg) False True [] =
     (Inr (sample_args, ''graphic''), sample_trace)"
  by (simp add: build_args_def probe_primary_def stage_disks_def ensure_file_image_def
      call_defs io_defs sample_env_def sample_cfg_def sample_interfaces_def iface_def
      sample_args_def sample_trace_def drive_fragment_def string_of_int_def
      string_of_nat.simps digit_char_def)

section \<open>Staging of disk images\<close>

lemma ensure_unfold:
  "remote_path \<noteq> JStr [] \<Longrightarrow>
   ensure_file_image E local_path remote_path overwrite_image tr =
     (case ans_check_file_exists E tr remote_path of
        None \<Rightarrow> (Inl Raised, tr @ [CheckFileExists remote_path])
      | Some file_exists \<Rightarrow>
          (let tr1 = tr @ [CheckFileExists remote_path];
               stage = (\<lambda>tr2.
                 if overwrite_image \<or> \<not> file_exists
                 then (case ans_os_path_exists E tr2 local_path of
                         None \<Rightarrow> (Inl Raised, tr2 @ [OsPathExists local_path])
                       | Some False \<Rightarrow>
                           (Inl (SysExit (LocalImageMissing local_path)),
                            tr2 @ [OsPathExists local_path])
                       | Some True \<Rightarrow>
                           (case ans_copy_to_remote E (tr2 @ [OsPathExists local_path])
                                   local_path remote_path of
                              None \<Rightarrow> (Inl Raised, tr2 @ [OsPathExists local_path,
                                          CopyToRemote local_path remote_path])
                            | Some u \<Rightarrow> (Inr (), tr2 @ [OsPathExists local_path,
                                          CopyToRemote local_path remote_path])))
                 else (Inr (), tr2))
           in if file_exists
              then (case ans_validate_image_use E tr1 remote_path None of
                      None \<Rightarrow> (Inl Raised, tr1 @ [ValidateImageUse remote_path None])
                    | Some False \<Rightarrow> (Inl (SysExit (ImageInUse remote_path)),
                                      tr1 @ [ValidateImageUse remote_path None])
                    | Some True \<Rightarrow> stage (tr1 @ [ValidateImageUse remote_path None]))
              else stage tr1))"
  by (simp add: ensure_file_image_def call_defs io_defs Let_def
      split: option.split bool.split)

lemma ensure_success_transfers:
  assumes rp: "remote_path \<noteq> JStr []"
    and ok: "fst (ensure_file_image E local_path remote_path overwrite_image tr) = Inr ()"
  shows "transfers (calls_made (ensure_file_image E local_path remote_path overwrite_image) tr) =
           (if overwrite_image \<or> ans_check_file_exists E tr remote_path = Some False
            then [CopyToRemote local_path remote_path] else [])"
proof (cases "ans_check_file_exists E tr remote_path")
  case None
  with rp ok show ?thesis by (simp add: ensure_unfold Let_def)
next
  case (Some file_exists)
  show ?thesis
  proof (cases file_exists)
    case False
    with rp ok Some show ?thesis
      by (simp add: ensure_unfold Let_def calls_made_def transfers_def
          split: option.splits bool.splits)
  next
    case True
    with rp ok Some show ?thesis
      by (simp add: ensure_unfold Let_def calls_made_def transfers_def
          split: option.splits bool.splits if_splits)
  qed
qed

lemma ensure_idle_reused:
  assumes "remote_path \<noteq> JStr []"
    and "ans_check_file_exists E tr remote_path = Some True"
    and "ans_validate_image_use E (tr @ [CheckFileExists remote_path]) remote_path None = Some True"
    and "\<not> overwrite_image"
  shows "ensure_file_image E local_path remote_path overwrite_image tr =
           (Inr (), tr @ [CheckFileExists remote_path, ValidateImageUse remote_path None])"
  using assms by (simp add: ensure_unfold Let_def)

lemma ensure_absent_staged:
  assumes "remote_path \<noteq> JStr []"
    and "ans_check_file_exists E tr remote_path = Some False"
    and "ans_os_path_exists E (tr @ [CheckFileExists remote_path]) local_path = Some True"
  shows "calls_made (ensure_file_image E local_path remote_path overwrite_image) tr =
           [CheckFileExists remote_path, OsPathExists local_path,
            CopyToRemote local_path remote_path]
         \<and> (fst (ensure_file_image E local_path remote_path overwrite_image tr) = Inr () \<longleftrightarrow>
              ans_copy_to_remote E (tr @ [CheckFileExists remote_path, OsPathExists local_path])
                local_path remote_path = Some ())"
  using assms by (simp add: ensure_unfold Let_def calls_made_def split: option.splits)

text \<open>
  Claim C1. For a non-empty remote path, a call of \<open>ensure_file_image\<close> that returns
  normally has invoked the bulk transfer to the remote path exactly when the overwrite
  flag is set or the remote path probed as absent (and then once, from the local source,
  which existed, since a missing local source ends the call). In particular a remote
  path that probes as present and idle with overwrite unset is reused without a
  transfer, and an absent remote path with an existing local source makes the call
  invoke exactly one transfer, after which it returns normally if the transfer does.
\<close>

theorem ensure_transfers:
  assumes "remote_path \<noteq> JStr []"
  shows "(fst (ensure_file_image E local_path remote_path overwrite_image tr) = Inr () \<longrightarrow>
            transfers (calls_made (ensure_file_image E local_path remote_path overwrite_image) tr) =
              (if overwrite_image \<or> ans_check_file_exists E tr remote_path = Some False
               then [CopyToRemote local_path remote_path] else []))
       \<and> (ans_check_file_exists E tr remote_path = Some True
            \<and> ans_validate_image_use E (tr @ [CheckFileExists remote_path]) remote_path None = Some True
            \<and> \<not> overwrite_image \<longrightarrow>
            ensure_file_image E local_path remote_path overwrite_image tr =
              (Inr (), tr @ [CheckFileExists remote_path, ValidateImageUse remote_path None]))
       \<and> (ans_check_file_exists E tr remote_path = Some False
            \<and> ans_os_path_exists E (tr @ [CheckFileExists remote_path]) local_path = Some True \<longrightarrow>
            calls_made (ensure_file_image E local_path remote_path overwrite_image) tr =
              [CheckFileExists remote_path, OsPathExists local_path,
               CopyToRemote local_path remote_path]
            \<and> (fst (ensure_file_image E local_path remote_path overwrite_image tr) = Inr () \<longleftrightarrow>
                 ans_copy_to_remote E
                   (tr @ [CheckFileExists remote_path, OsPathExists local_path])
                   local_path remote_path = Some ()))"
  using ensure_success_transfers [OF assms] ensure_idle_reused [OF assms]
    ensure_absent_staged [OF assms]
  by blast

theorem ensure_transfers_witness:
  "JStr ''vm.qcow2'' \<noteq> JStr []
   \<and> fst (ensure_file_image (sample_env True False True) (JStr ''local.qcow2'') (JStr ''vm.qcow2'') True [])
       = Inr ()
   \<and> transfers (calls_made
        (ensure_file_image (sample_env True False True) (JStr ''local.qcow2'') (JStr ''vm.qcow2'') True) [])
       = [CopyToRemote (JStr ''local.qcow2'') (JStr ''vm.qcow2'')]
   \<and> ans_check_file_exists (sample_env True False True) [] (JStr ''vm.qcow2'') = Some True
   \<and> ans_validate_image_use (sample_env True False True) ([] @ [CheckFileExists (JStr ''vm.qcow2'')])
        (JStr ''vm.qcow2'') None = Some True
   \<and> ensure_file_image (sample_env True False True) (JStr ''local.qcow2'') (JStr ''vm.qcow2'') False [] =
       (Inr (), [CheckFileExists (JStr ''vm.qcow2''), ValidateImageUse (JStr ''vm.qcow2'') None])
   \<and> ans_check_file_exists (sample_env False False True) [] (JStr ''vm.qcow2'') = Some False
   \<and> ans_os_path_exists (sample_env False False True) ([] @ [CheckFileExists (JStr ''vm.qcow2'')])
        (JStr ''local.qcow2'') = Some True
   \<and> calls_made
        (ensure_file_image (sample_env False False True) (JStr ''local.qcow2'') (JStr ''vm.qcow2'') False) []
       = [CheckFileExists (JStr ''vm.qcow2''), OsPathExists (JStr ''local.qcow2''),
          CopyToRemote (JStr ''local.qcow2'') (JStr ''vm.qcow2'')]"
proof -
  have h: "JStr ''vm.qcow2'' \<noteq> JStr []" by simp
  have a1: "fst (ensure_file_image (sample_env True False True) (JStr ''local.qcow2'')
                  (JStr ''vm.qcow2'') True []) = Inr ()"
    by (simp add: ensure_unfold Let_def sample_env_def)
  have b1: "ans_check_file_exists (sample_env True False True) [] (JStr ''vm.qcow2'') = Some True"
    by (simp add: sample_env_def)
  have b2: "ans_validate_image_use (sample_env True False True)
              ([] @ [CheckFileExists (JStr ''vm.qcow2'')]) (JStr ''vm.qcow2'') None = Some True"
    by (simp add: sample_env_def)
  have c1: "ans_check_file_exists (sample_env False False True) [] (JStr ''vm.qcow2'') = Some False"
    by (simp add: sample_env_def)
  have c2: "ans_os_path_exists (sample_env False False True)
              ([] @ [CheckFileExists (JStr ''vm.qcow2'')]) (JStr ''local.qcow2'') = Some True"
    by (simp add: sample_env_def)
  note t1 = ensure_transfers [OF h, of "sample_env True False True" "JStr ''local.qcow2''" True "[]"]
  note t2 = ensure_transfers [OF h, of "sample_env True False True" "JStr ''local.qcow2''" False "[]"]
  note t3 = ensure_transfers [OF h, of "sample_env False False True" "JStr ''local.qcow2''" False "[]"]
  from t1 a1 have r1: "transfers (calls_made
        (ensure_file_image (sample_env True False True) (JStr ''local.qcow2'') (JStr ''vm.qcow2'') True) [])
       = [CopyToRemote (JStr ''local.qcow2'') (JStr ''vm.qcow2'')]"
    by simp
  from t2 b1 b2 have r2: "ensure_file_image (sample_env True False True) (JStr ''local.qcow2'')
        (JStr ''vm.qcow2'') False [] =
       (Inr (), [CheckFileExists (JStr ''vm.qcow2''), ValidateImageUse (JStr ''vm.qcow2'') None])"
    by simp
  from t3 c1 c2 have r3: "calls_made
        (ensure_file_image (sample_env False False True) (JStr ''local.qcow2'') (JStr ''vm.qcow2'') False) []
       = [CheckFileExists (JStr ''vm.qcow2''), OsPathExists (JStr ''local.qcow2''),
          CopyToRemote (JStr ''local.qcow2'') (JStr ''vm.qcow2'')]"
    by simp
  from h a1 r1 b1 b2 r2 c1 c2 r3 show ?thesis by blast
qed

text \<open>
  Claim C2. When the remote path probes as existing and the in-use probe reports that
  another hypervisor process holds it, \<open>ensure_file_image\<close> (which never asks the
  probe to kill the owner) ends with the in-use diagnostic and \<^verbatim>\<open>sys.exit(1)\<close>, having
  made the two probes and nothing else: no transfer is invoked.
\<close>

theorem ensure_in_use_conflict:
  assumes "remote_path \<noteq> JStr []"
    and "ans_check_file_exists E tr remote_path = Some True"
    and "ans_validate_image_use E (tr @ [CheckFileExists remote_path]) remote_path None
           = Some False"
  shows "ensure_file_image E local_path remote_path overwrite_image tr =
           (Inl (SysExit (ImageInUse remote_path)),
            tr @ [CheckFileExists remote_path, ValidateImageUse remote_path None])
         \<and> transfers (calls_made (ensure_file_image E local_path remote_path overwrite_image) tr)
             = []"
  using assms
  by (simp add: ensure_file_image_def call_defs io_defs transfers_def calls_made_def)

theorem ensure_in_use_conflict_witness:
  "JStr ''vm.qcow2'' \<noteq> JStr []
   \<and> ans_check_file_exists (sample_env True True True) [] (JStr ''vm.qcow2'') = Some True
   \<and> ans_validate_image_use (sample_env True True True) ([] @ [CheckFileExists (JStr ''vm.qcow2'')])
        (JStr ''vm.qcow2'') None = Some False
   \<and> ensure_file_image (sample_env True True True) (JStr ''local.qcow2'') (JStr ''vm.qcow2'') True [] =
       (Inl (SysExit (ImageInUse (JStr ''vm.qcow2''))),
        [CheckFileExists (JStr ''vm.qcow2''), ValidateImageUse (JStr ''vm.qcow2'') None])
   \<and> transfers (calls_made
        (ensure_file_image (sample_env True True True) (JStr ''local.qcow2'') (JStr ''vm.qcow2'') True) [])
       = []"
proof -
  have h1: "JStr ''vm.qcow2'' \<noteq> JStr []" by simp
  have h2: "ans_check_file_exists (sample_env True True True) [] (JStr ''vm.qcow2'') = Some True"
    by (simp add: sample_env_def)
  have h3: "ans_validate_image_use (sample_env True True True)
              ([] @ [CheckFileExists (JStr ''vm.qcow2'')]) (JStr ''vm.qcow2'') None = Some False"
    by (simp add: sample_env_def)
  show ?thesis
    using ensure_in_use_conflict [OF h1 h2 h3, of "JStr ''local.qcow2''" True] h1 h2 h3
    by simp
qed

section \<open>Interfaces and their slots\<close>

lemma slot_assignments_append:
  "slot_assignments (xs @ ys) = slot_assignments xs @ slot_assignments ys"
  by (simp add: slot_assignments_def)

lemma slot_assignments_none:
  "list_all P evs \<Longrightarrow> (\<And>e. P e \<Longrightarrow> slot_of e = []) \<Longrightarrow> slot_assignments evs = []"
  by (induction evs) (auto simp: slot_assignments_def)

lemma probe_no_slot: "is_probe_event e \<Longrightarrow> slot_of e = []"
  by (cases e) simp_all

lemma disk_no_slot: "is_disk_event e \<Longrightarrow> slot_of e = []"
  by (cases e) simp_all

lemma zip_slots_Cons:
  "zip (x # xs) [i ..< i + length (x # xs)] = (x, i) # zip xs [i + 1 ..< i + 1 + length xs]"
proof -
  have "[i ..< i + length (x # xs)] = i # [i + 1 ..< i + 1 + length xs]"
    by (simp add: upt_conv_Cons del: upt_Suc)
  then show ?thesis by simp
qed

lemma interfaces_loop_slots:
  "interfaces_loop E ifs i args tr = (Inr a, tr') \<Longrightarrow>
   \<exists>evs. tr' = tr @ evs \<and>
     slot_assignments evs = zip (filter vm_attached ifs) [i ..< i + length (filter vm_attached ifs)]"
proof (induction ifs arbitrary: i args tr)
  case Nil
  then show ?case by (simp add: io_Inr slot_assignments_def)
next
  case (Cons x ifs)
  from Cons.prems obtain ty where ty: "py_getitem x ''type'' = Inr ty"
    and body: "(if ty = JStr ''macvtap'' then
         io_bind (macvtap_create E x) (\<lambda>_.
         io_bind (macvtap_get_args E x i) (\<lambda>frag.
         interfaces_loop E ifs (i + 1) (args @ frag)))
       else if ty = JStr ''tap'' then
         io_bind (tap_create E x) (\<lambda>_.
         io_bind (tap_get_args E x i) (\<lambda>frag.
         interfaces_loop E ifs (i + 1) (args @ frag)))
       else if ty = JStr ''user'' then
         io_bind (user_create E x) (\<lambda>_.
         io_bind (user_get_args E x) (\<lambda>frag.
         interfaces_loop E ifs i (args @ frag)))
       else io_fail (SysExit (UnknownInterfaceType ty))) tr = (Inr a, tr')"
    by (auto simp: io_bind_Inr io_lift_Inr)
  let ?n = "length (filter vm_attached ifs)"
  consider (macvtap) "ty = JStr ''macvtap''" | (tap) "ty = JStr ''tap''"
    | (user) "ty = JStr ''user''"
    | (other) "ty \<noteq> JStr ''macvtap''" "ty \<noteq> JStr ''tap''" "ty \<noteq> JStr ''user''"
    by blast
  then show ?case
  proof cases
    case macvtap
    with body obtain frag where
      "interfaces_loop E ifs (i + 1) (args @ frag) (tr @ [MacVtapCreate x, MacVtapGetArgs x i])
         = (Inr a, tr')"
      by (auto simp: io_Inr macvtap_create_def macvtap_get_args_def)
    from Cons.IH [OF this] obtain evs where
      evs: "tr' = (tr @ [MacVtapCreate x, MacVtapGetArgs x i]) @ evs"
        "slot_assignments evs = zip (filter vm_attached ifs) [i + 1 ..< i + 1 + ?n]"
      by blast
    have att: "vm_attached x" using ty macvtap by (simp add: vm_attached_def)
    have "slot_assignments ([MacVtapCreate x, MacVtapGetArgs x i] @ evs) =
            zip (filter vm_attached (x # ifs)) [i ..< i + length (filter vm_attached (x # ifs))]"
      using att evs(2) zip_slots_Cons [of x "filter vm_attached ifs" i]
      by (simp add: slot_assignments_def del: upt_Suc)
    with evs(1) show ?thesis by (intro exI [of _ "[MacVtapCreate x, MacVtapGetArgs x i] @ evs"]) simp
  next
    case tap
    with body obtain frag where
      "interfaces_loop E ifs (i + 1) (args @ frag) (tr @ [TapCreate x, TapGetArgs x i])
         = (Inr a, tr')"
      by (auto simp: io_Inr tap_create_def tap_get_args_def)
    from Cons.IH [OF this] obtain evs where
      evs: "tr' = (tr @ [TapCreate x, TapGetArgs x i]) @ evs"
        "slot_assignments evs = zip (filter vm_attached ifs) [i + 1 ..< i + 1 + ?n]"
      by blast
    have att: "vm_attached x" using ty tap by (simp add: vm_attached_def)
    have "slot_assignments ([TapCreate x, TapGetArgs x i] @ evs) =
            zip (filter vm_attached (x # ifs)) [i ..< i + length (filter vm_attached (x # ifs))]"
      using att evs(2) zip_slots_Cons [of x "filter vm_attached ifs" i]
      by (simp add: slot_assignments_def del: upt_Suc)
    with evs(1) show ?thesis by (intro exI [of _ "[TapCreate x, TapGetArgs x i] @ evs"]) simp
  next
    case user
    with body obtain frag where
      "interfaces_loop E ifs i (args @ frag) (tr @ [UserCreate x, UserGetArgs x]) = (Inr a, tr')"
      by (auto simp: io_Inr user_create_def user_get_args_def)
    from Cons.IH [OF this] obtain evs where
      evs: "tr' = (tr @ [UserCreate x, UserGetArgs x]) @ evs"
        "slot_assignments evs = zip (filter vm_attached ifs) [i ..< i + ?n]"
      by blast
    have att: "\<not> vm_attached x" using ty user by (simp add: vm_attached_def)
    have "slot_assignments ([UserCreate x, UserGetArgs x] @ evs) =
            zip (filter vm_attached (x # ifs)) [i ..< i + length (filter vm_attached (x # ifs))]"
      using att evs(2) by (simp add: slot_assignments_def)
    with evs(1) show ?thesis by (intro exI [of _ "[UserCreate x, UserGetArgs x] @ evs"]) simp
  next
    case other
    with body show ?thesis by (simp add: io_Inr)
  qed
qed

lemma config_loop_no_interfaces:
  "''interfaces'' \<notin> fst ` set kvs \<Longrightarrow> snd (config_loop E kvs args dm tr) = tr"
proof (induction kvs arbitrary: args dm)
  case Nil
  show ?case by (simp add: io_return_def)
next
  case (Cons kv kvs)
  obtain key v where kv: "kv = (key, v)" by (cases kv)
  with Cons.prems have k: "key \<noteq> ''interfaces''" and r: "''interfaces'' \<notin> fst ` set kvs"
    by auto
  show ?case unfolding kv config_loop_Cons using k Cons.IH [OF r]
    by (simp add: io_fail_def split: sum.split prod.split)
qed

lemma config_loop_step:
  assumes "config_loop E ((key, v) # rest) args dm tr = (Inr r, tr')"
    and "key \<noteq> ''interfaces''"
  shows "\<exists>args' dm'. config_loop E rest args' dm' tr = (Inr r, tr')"
  using assms unfolding config_loop_Cons
  by (auto simp: io_fail_Inr split: sum.splits)


lemma config_loop_slots:
  assumes "config_loop E kvs args dm tr = (Inr r, tr')"
    and "distinct (map fst kvs)"
    and "map_of kvs ''interfaces'' = Some (JList ifs)"
  shows "\<exists>evs. tr' = tr @ evs \<and>
     slot_assignments evs = zip (filter vm_attached ifs) [4 ..< 4 + length (filter vm_attached ifs)]"
  using assms
proof (induction kvs arbitrary: args dm)
  case Nil
  then show ?case by simp
next
  case (Cons kv kvs)
  obtain key v where kv: "kv = (key, v)" by (cases kv)
  show ?case
  proof (cases "key = ''interfaces''")
    case True
    with Cons.prems kv have v: "v = JList ifs" and fresh: "''interfaces'' \<notin> fst ` set kvs"
      by auto
    from Cons.prems(1) obtain a tr1 where
      loop: "interfaces_loop E ifs 4 args tr = (Inr a, tr1)"
      and rest: "config_loop E kvs a dm tr1 = (Inr r, tr')"
      unfolding kv config_loop_Cons using True v by (auto simp: io_Inr)
    from config_loop_no_interfaces [OF fresh, of E a dm tr1] rest have "tr' = tr1" by simp
    with interfaces_loop_slots [OF loop] show ?thesis by simp
  next
    case False
    with Cons.prems kv have m: "map_of kvs ''interfaces'' = Some (JList ifs)"
      and d: "distinct (map fst kvs)" by auto
    from config_loop_step [OF _ False] Cons.prems(1) kv obtain args' dm' where
      "config_loop E kvs args' dm' tr = (Inr r, tr')" by blast
    from Cons.IH [OF this d m] show ?thesis .
  qed
qed

lemma build_args_Inr:
  assumes "build_args E (JObj cfg) ow kill tr = (Inr (args, dm), tr')"
  obtains tr1 pre tr2 where
    "probe_primary E (JObj cfg) kill tr = (Inr (), tr1)"
    "config_loop E cfg [''-accel'', ''kvm'', ''-cpu'', ''max''] [] tr1 = (Inr (pre, dm), tr2)"
    "stage_disks E (JObj cfg) ow pre tr2 = (Inr args, tr')"
  using assms by (auto simp: build_args_def io_Inr)


text \<open>
  Claim C3. When the argument vector of a configuration gets built and its
  \<^verbatim>\<open>interfaces\<close> key holds a list, the slot indices passed to \<^verbatim>\<open>get_args\<close> are,
  in document order, those of the entries of type macvtap or tap paired with
  4, 5, ..., 3 + N, where N is the number of such entries; an entry of type user is passed
  no slot and consumes none.
\<close>

theorem interface_slots:
  assumes "build_args E (JObj cfg) overwrite_image kill_running_vms tr = (Inr (args, display_mode), tr')"
    and "distinct (map fst cfg)"
    and "map_of cfg ''interfaces'' = Some (JList interfaces)"
  shows "slot_assignments (calls_made (build_args E (JObj cfg) overwrite_image kill_running_vms) tr) =
           zip (filter vm_attached interfaces)
               [4 ..< 4 + length (filter vm_attached interfaces)]"
proof -
  from assms(1) obtain tr1 pre tr2 where
    p: "probe_primary E (JObj cfg) kill_running_vms tr = (Inr (), tr1)" and
    c: "config_loop E cfg [''-accel'', ''kvm'', ''-cpu'', ''max''] [] tr1 = (Inr (pre, display_mode), tr2)" and
    s: "stage_disks E (JObj cfg) overwrite_image pre tr2 = (Inr args, tr')"
    by (rule build_args_Inr)
  from emitsD [OF emits_probe p] obtain e1 where e1: "tr1 = tr @ e1" "list_all is_probe_event e1"
    by blast
  from config_loop_slots [OF c assms(2,3)] obtain e2 where e2: "tr2 = tr1 @ e2"
    "slot_assignments e2 = zip (filter vm_attached interfaces)
               [4 ..< 4 + length (filter vm_attached interfaces)]"
    by blast
  from emitsD [OF emits_stage s] obtain e3 where e3: "tr' = tr2 @ e3" "list_all is_disk_event e3"
    by blast
  have "calls_made (build_args E (JObj cfg) overwrite_image kill_running_vms) tr = e1 @ e2 @ e3"
    using assms(1) e1(1) e2(1) e3(1) by (simp add: calls_made_def)
  moreover have "slot_assignments e1 = []"
    using e1(2) probe_no_slot by (rule slot_assignments_none)
  moreover have "slot_assignments e3 = []"
    using e3(2) disk_no_slot by (rule slot_assignments_none)
  ultimately show ?thesis using e2(2) by (simp add: slot_assignments_append)
qed

theorem interface_slots_witness:
  "build_args (sample_env False False True) (JObj sample_cfg) False True [] =
     (Inr (sample_args, ''graphic''), sample_trace)
   \<and> distinct (map fst sample_cfg)
   \<and> map_of sample_cfg ''interfaces'' = Some (JList sample_interfaces)
   \<and> slot_assignments
        (calls_made (build_args (sample_env False False True) (JObj sample_cfg) False True) []) =
       [(iface ''tap'', 4), (iface ''macvtap'', 5)]"
proof -
  have d: "distinct (map fst sample_cfg)" by (simp add: sample_cfg_def)
  have m: "map_of sample_cfg ''interfaces'' = Some (JList sample_interfaces)"
    by (simp add: sample_cfg_def)
  have z: "zip (filter vm_attached sample_interfaces)
             [4 ..< 4 + length (filter vm_attached sample_interfaces)] =
           [(iface ''tap'', 4), (iface ''macvtap'', 5)]"
    by (simp add: sample_interfaces_def vm_attached_def iface_def)
  from interface_slots [OF build_sample d m] z build_sample d m show ?thesis by simp
qed

section \<open>Drives\<close>

lemma additional_disks_args:
  "additional_disks_loop E vs ow n args tr = (Inr a, tr') \<Longrightarrow>
   a = args @ drive_args E n (map remote_of vs)"
proof (induction vs arbitrary: n args tr)
  case Nil
  then show ?case by (simp add: io_Inr)
next
  case (Cons v vs)
  from Cons.prems obtain lp rp tr1 where
    rp: "py_get v ''remote_disk_image_path'' (JStr []) = Inr rp" and
    rest: "additional_disks_loop E vs ow (n + 1) (args @ [''-drive'', drive_fragment E rp n]) tr1
             = (Inr a, tr')"
    by (auto simp: io_Inr)
  from Cons.IH [OF rest] rp show ?case by (simp add: remote_of_def)
qed

lemma stage_disks_args:
  assumes "stage_disks E (JObj cfg) ow args tr = (Inr a, tr')"
  shows "a = args @ drive_args E 0 (disk_paths cfg)"
proof -
  from assms obtain remote_path extra vs tr1 where
    rp: "py_getitem (JObj cfg) ''remote_disk_image_path'' = Inr remote_path" and
    ex: "py_get (JObj cfg) ''additional_disk_images'' (JList []) = Inr extra" and
    vs: "py_iter extra = Inr vs" and
    loop: "additional_disks_loop E vs ow 1 (args @ [''-drive'', drive_fragment E remote_path 0]) tr1
             = (Inr a, tr')"
    by (auto simp: stage_disks_def io_Inr split: if_splits)
  from rp ex vs have "disk_paths cfg = remote_path # map remote_of vs"
    by (auto simp: disk_paths_def split: option.splits)
  with additional_disks_args [OF loop] show ?thesis by simp
qed

text \<open>
  Claim C4. In a built argument vector all \<^verbatim>\<open>-drive\<close> pairs come after every other
  argument: the vector is what the loop over the keys built, followed by one pair per
  disk in disk order, the primary disk first with \<^verbatim>\<open>index=0\<close>, then each entry of
  \<^verbatim>\<open>additional_disk_images\<close> at the next index; each pair is \<^verbatim>\<open>-drive\<close> and
  \<^verbatim>\<open>file=<path>,format=qcow2,if=virtio,index=<n>,media=disk\<close>.
\<close>

theorem drives_last:
  assumes "build_args E (JObj cfg) overwrite_image kill_running_vms tr = (Inr (args, display_mode), tr')"
  shows "\<exists>pre tr1 tr2.
           probe_primary E (JObj cfg) kill_running_vms tr = (Inr (), tr1)
         \<and> config_loop E cfg [''-accel'', ''kvm'', ''-cpu'', ''max''] [] tr1 = (Inr (pre, display_mode), tr2)
         \<and> args = pre @ drive_args E 0 (disk_paths cfg)"
proof -
  from assms obtain tr1 pre tr2 where
    p: "probe_primary E (JObj cfg) kill_running_vms tr = (Inr (), tr1)" and
    c: "config_loop E cfg [''-accel'', ''kvm'', ''-cpu'', ''max''] [] tr1 = (Inr (pre, display_mode), tr2)" and
    s: "stage_disks E (JObj cfg) overwrite_image pre tr2 = (Inr args, tr')"
    by (rule build_args_Inr)
  from stage_disks_args [OF s] p c show ?thesis by blast
qed

theorem drives_last_witness:
  "build_args (sample_env False False True) (JObj sample_cfg) False True [] =
     (Inr (sample_args, ''graphic''), sample_trace)
   \<and> (\<exists>pre tr1 tr2.
           probe_primary (sample_env False False True) (JObj sample_cfg) True [] = (Inr (), tr1)
         \<and> config_loop (sample_env False False True) sample_cfg
              [''-accel'', ''kvm'', ''-cpu'', ''max''] [] tr1 = (Inr (pre, ''graphic''), tr2)
         \<and> sample_args = pre @ drive_args (sample_env False False True) 0 (disk_paths sample_cfg))
   \<and> drive_args (sample_env False False True) 0 (disk_paths sample_cfg) =
       [''-drive'', ''file=vm.qcow2,format=qcow2,if=virtio,index=0,media=disk'',
        ''-drive'', ''file=data.qcow2,format=qcow2,if=virtio,index=1,media=disk'']"
proof -
  have d: "drive_args (sample_env False False True) 0 (disk_paths sample_cfg) =
       [''-drive'', ''file=vm.qcow2,format=qcow2,if=virtio,index=0,media=disk'',
        ''-drive'', ''file=data.qcow2,format=qcow2,if=virtio,index=1,media=disk'']"
    by (simp add: disk_paths_def sample_cfg_def remote_of_def drive_fragment_def
        string_of_nat.simps digit_char_def)
  from drives_last [OF build_sample] build_sample d show ?thesis by blast
qed

section \<open>Display modes and execution disciplines\<close>

lemma interfaces_loop_extends:
  "interfaces_loop E ifs i args tr = (Inr a, tr') \<Longrightarrow> \<exists>more. a = args @ more"
proof (induction ifs arbitrary: i args tr)
  case Nil
  then show ?case by (simp add: io_Inr)
next
  case (Cons x ifs)
  from Cons.prems obtain i' frag tr1 where
    "interfaces_loop E ifs i' (args @ frag) tr1 = (Inr a, tr')"
    by (auto simp: io_Inr split: if_splits)
  from Cons.IH [OF this] show ?case by auto
qed

lemma key_step_other:
  assumes "key_step E key v args dm = Inr (a, d)" and "key \<noteq> ''display_mode''"
  shows "d = dm \<and> (\<exists>more. a = args @ more)"
  using assms by (auto simp: key_step_def split: if_splits)

lemma key_step_display:
  assumes "key_step E ''display_mode'' v args dm = Inr (a, d)"
  shows "(v = JStr ''background'' \<and> d = ''background''
            \<and> a = args @ [''-vga'', ''none'', ''-serial'', ''none'', ''-nographic''])
       \<or> (v = JStr ''terminal'' \<and> d = dm \<and> a = args @ [''-vga'', ''none'', ''-nographic''])
       \<or> (v = JStr ''graphic'' \<and> d = ''graphic'' \<and> a = args @ [''-vga'', ''virtio''])"
  using assms by (auto simp: key_step_def split: if_splits)

lemma key_step_extends:
  assumes "key_step E key v args dm = Inr (a, d)"
  shows "\<exists>more. a = args @ more"
proof (cases "key = ''display_mode''")
  case True
  with key_step_display [of E v args dm a d] assms show ?thesis by auto
next
  case False
  with key_step_other [OF assms] show ?thesis by simp
qed

lemma config_loop_Cons_Inr:
  assumes "config_loop E ((key, v) # rest) args dm tr = (Inr r, tr')"
  obtains (interfaces) ifs a tr1 where "key = ''interfaces''" "py_iter v = Inr ifs"
      "interfaces_loop E ifs 4 args tr = (Inr a, tr1)" "config_loop E rest a dm tr1 = (Inr r, tr')"
    | (other) a d where "key \<noteq> ''interfaces''" "key_step E key v args dm = Inr (a, d)"
      "config_loop E rest a d tr = (Inr r, tr')"
  using assms unfolding config_loop_Cons
  by (auto simp: io_Inr split: if_splits sum.splits)

lemma config_loop_extends:
  "config_loop E kvs args dm tr = (Inr (a, d), tr') \<Longrightarrow> \<exists>more. a = args @ more"
proof (induction kvs arbitrary: args dm tr)
  case Nil
  then show ?case by (simp add: io_Inr)
next
  case (Cons kv kvs)
  obtain key v where kv: "kv = (key, v)" by (cases kv)
  from Cons.prems [unfolded kv] show ?case
  proof (cases rule: config_loop_Cons_Inr)
    case (interfaces ifs a1 tr1)
    from interfaces_loop_extends [OF interfaces(3)] Cons.IH [OF interfaces(4)]
    show ?thesis by auto
  next
    case (other a1 d1)
    from key_step_extends [OF other(2)] Cons.IH [OF other(3)] show ?thesis by auto
  qed
qed

lemma config_loop_no_display:
  "config_loop E kvs args dm tr = (Inr (a, d), tr') \<Longrightarrow>
   ''display_mode'' \<notin> fst ` set kvs \<Longrightarrow> d = dm"
proof (induction kvs arbitrary: args dm tr)
  case Nil
  then show ?case by (simp add: io_Inr)
next
  case (Cons kv kvs)
  obtain key v where kv: "kv = (key, v)" by (cases kv)
  from Cons.prems(2) kv have k: "key \<noteq> ''display_mode''"
    and r: "''display_mode'' \<notin> fst ` set kvs" by auto
  from Cons.prems(1) [unfolded kv] show ?case
  proof (cases rule: config_loop_Cons_Inr)
    case (interfaces ifs a1 tr1)
    from Cons.IH [OF interfaces(4) r] show ?thesis .
  next
    case (other a1 d1)
    from key_step_other [OF other(2) k] Cons.IH [OF other(3) r] show ?thesis by simp
  qed
qed

lemma sublist_extend: "a1 = args @ f \<Longrightarrow> a = a1 @ ss \<Longrightarrow> sublist f a"
  by (auto simp: sublist_def)

lemma config_loop_display:
  assumes "config_loop E kvs args dm tr = (Inr (a, d), tr')"
    and "distinct (map fst kvs)"
    and "map_of kvs ''display_mode'' = Some v"
  shows "(v = JStr ''background'' \<and> d = ''background''
            \<and> sublist [''-vga'', ''none'', ''-serial'', ''none'', ''-nographic''] a)
       \<or> (v = JStr ''terminal'' \<and> d = dm \<and> sublist [''-vga'', ''none'', ''-nographic''] a)
       \<or> (v = JStr ''graphic'' \<and> d = ''graphic'' \<and> sublist [''-vga'', ''virtio''] a)"
  using assms
proof (induction kvs arbitrary: args dm tr)
  case Nil
  then show ?case by simp
next
  case (Cons kv kvs)
  obtain key w where kv: "kv = (key, w)" by (cases kv)
  show ?case
  proof (cases "key = ''display_mode''")
    case True
    with Cons.prems kv have w: "w = v" and fresh: "''display_mode'' \<notin> fst ` set kvs"
      by auto
    from Cons.prems(1) [unfolded kv] show ?thesis
    proof (cases rule: config_loop_Cons_Inr)
      case (interfaces ifs a1 tr1)
      with True show ?thesis by simp
    next
      case (other a1 d1)
      from config_loop_no_display [OF other(3) fresh] have d: "d = d1" .
      from config_loop_extends [OF other(3)] obtain ss where a: "a = a1 @ ss" by blast
      from other(2) True w have ks: "key_step E ''display_mode'' v args dm = Inr (a1, d1)"
        by simp
      from key_step_display [OF ks] consider
          (background) "v = JStr ''background''" "d1 = ''background''"
            "a1 = args @ [''-vga'', ''none'', ''-serial'', ''none'', ''-nographic'']"
        | (terminal) "v = JStr ''terminal''" "d1 = dm" "a1 = args @ [''-vga'', ''none'', ''-nographic'']"
        | (graphic) "v = JStr ''graphic''" "d1 = ''graphic''" "a1 = args @ [''-vga'', ''virtio'']"
        by blast
      then show ?thesis
      proof cases
        case background
        from sublist_extend [OF background(3) a] background(1,2) d show ?thesis by blast
      next
        case terminal
        from sublist_extend [OF terminal(3) a] terminal(1,2) d show ?thesis by blast
      next
        case graphic
        from sublist_extend [OF graphic(3) a] graphic(1,2) d show ?thesis by blast
      qed
    qed
  next
    case False
    with Cons.prems kv have m: "map_of kvs ''display_mode'' = Some v"
      and dd: "distinct (map fst kvs)" by auto
    from Cons.prems(1) [unfolded kv] show ?thesis
    proof (cases rule: config_loop_Cons_Inr)
      case (interfaces ifs a1 tr1)
      from Cons.IH [OF interfaces(4) dd m] show ?thesis .
    next
      case (other a1 d1)
      from key_step_other [OF other(2) False] have "d1 = dm" by simp
      with Cons.IH [OF other(3) dd m] show ?thesis by simp
    qed
  qed
qed

lemmas eval_defs = build_args_def probe_primary_def stage_disks_def ensure_file_image_def
  call_defs io_defs sample_env_def drive_fragment_def string_of_int_def
  string_of_nat.simps digit_char_def

lemma build_display:
  "build_args (sample_env True False True) (JObj (display_cfg None)) False True [] =
     (Inr (display_args [], []), display_trace)"
  "build_args (sample_env True False True) (JObj (display_cfg (Some (JStr ''terminal'')))) False True [] =
     (Inr (display_args [''-vga'', ''none'', ''-nographic''], []), display_trace)"
  "build_args (sample_env True False True) (JObj (display_cfg (Some (JStr ''background'')))) False True [] =
     (Inr (display_args [''-vga'', ''none'', ''-serial'', ''none'', ''-nographic''], ''background''),
      display_trace)"
  "build_args (sample_env True False True) (JObj (display_cfg (Some (JStr ''graphic'')))) False True [] =
     (Inr (display_args [''-vga'', ''virtio''], ''graphic''), display_trace)"
  by (simp_all add: eval_defs display_cfg_def display_args_def display_trace_def)

lemma sublist_app: "sublist f pre \<Longrightarrow> sublist f (pre @ ds)"
  unfolding sublist_def by (metis append_assoc)

lemma launch_after_build:
  assumes "build_args E vm ow kill tr = (Inr (args, dm), tr1)"
  shows "snd (launch_single_vm E vm ow kill tr) =
           tr1 @ [RunSingleCommand (command_line args)
                    (if dm = ''background'' \<or> dm = ''graphic''
                     then detached_discipline else blocking_pty_discipline)]"
  using assms
  by (simp add: launch_single_vm_def io_bind_def run_single_command_def call_def
      split: option.split)


lemma display_mode_cases:
  assumes d: "distinct (map fst cfg)"
    and b: "build_args E (JObj cfg) ow kill tr = (Inr (args, dm), tr1)"
  shows "(map_of cfg ''display_mode'' = None \<and> dm = [])
       \<or> (map_of cfg ''display_mode'' = Some (JStr ''background'') \<and> dm = ''background''
            \<and> sublist [''-vga'', ''none'', ''-serial'', ''none'', ''-nographic''] args)
       \<or> (map_of cfg ''display_mode'' = Some (JStr ''terminal'') \<and> dm = []
            \<and> sublist [''-vga'', ''none'', ''-nographic''] args)
       \<or> (map_of cfg ''display_mode'' = Some (JStr ''graphic'') \<and> dm = ''graphic''
            \<and> sublist [''-vga'', ''virtio''] args)"
proof -
  from b obtain tr0 pre tr2 where
    c: "config_loop E cfg [''-accel'', ''kvm'', ''-cpu'', ''max''] [] tr0 = (Inr (pre, dm), tr2)" and
    s: "stage_disks E (JObj cfg) ow pre tr2 = (Inr args, tr1)"
    by (rule build_args_Inr)
  from stage_disks_args [OF s] have args: "args = pre @ drive_args E 0 (disk_paths cfg)" .
  show ?thesis
  proof (cases "map_of cfg ''display_mode''")
    case None
    then have "''display_mode'' \<notin> fst ` set cfg" by (simp add: map_of_eq_None_iff)
    from config_loop_no_display [OF c this] None show ?thesis by simp
  next
    case (Some v)
    from config_loop_display [OF c d Some] Some sublist_app [of _ pre "drive_args E 0 (disk_paths cfg)"]
    show ?thesis unfolding args by blast
  qed
qed

text \<open>
  Claim C5. For a configuration whose argument vector gets built: with
  \<^verbatim>\<open>display_mode\<close> \<^verbatim>\<open>"background"\<close> the vector contains
  \<^verbatim>\<open>-vga none -serial none -nographic\<close>, with \<^verbatim>\<open>"graphic"\<close> it contains
  \<^verbatim>\<open>-vga virtio\<close>, and in both cases the last call of the launch starts the
  hypervisor detached: \<^verbatim>\<open>run_single_command\<close> is given \<^verbatim>\<open>disown=True\<close>,
  \<^verbatim>\<open>no_output=True\<close> and \<^verbatim>\<open>no_pipe=True\<close>, and no \<^verbatim>\<open>pty\<close>. With
  \<^verbatim>\<open>"terminal"\<close> the vector contains \<^verbatim>\<open>-vga none -nographic\<close> and the hypervisor
  is started blocking on an interactive pty: \<^verbatim>\<open>pty=True\<close>, \<^verbatim>\<open>disown=False\<close>,
  \<^verbatim>\<open>no_pipe=False\<close>, and no \<^verbatim>\<open>no_output\<close>; so it is when the key is absent. The
  fragments and the keywords always belong to the same mode.
\<close>

theorem display_mode_discipline:
  assumes "distinct (map fst cfg)"
    and "build_args E (JObj cfg) overwrite_image kill_running_vms tr = (Inr (args, display_mode), tr1)"
  shows "(map_of cfg ''display_mode'' = Some (JStr ''background'') \<longrightarrow>
            sublist [''-vga'', ''none'', ''-serial'', ''none'', ''-nographic''] args
            \<and> snd (launch_single_vm E (JObj cfg) overwrite_image kill_running_vms tr) =
                tr1 @ [RunSingleCommand (command_line args)
                         \<lparr>no_pipe = Some True, fail_on_returncode = Some True,
                          asynchronous = Some False, disown = Some True,
                          no_output = Some True, pty = None\<rparr>])
       \<and> (map_of cfg ''display_mode'' = Some (JStr ''graphic'') \<longrightarrow>
            sublist [''-vga'', ''virtio''] args
            \<and> snd (launch_single_vm E (JObj cfg) overwrite_image kill_running_vms tr) =
                tr1 @ [RunSingleCommand (command_line args)
                         \<lparr>no_pipe = Some True, fail_on_returncode = Some True,
                          asynchronous = Some False, disown = Some True,
                          no_output = Some True, pty = None\<rparr>])
       \<and> (map_of cfg ''display_mode'' = Some (JStr ''terminal'') \<longrightarrow>
            sublist [''-vga'', ''none'', ''-nographic''] args
            \<and> snd (launch_single_vm E (JObj cfg) overwrite_image kill_running_vms tr) =
                tr1 @ [RunSingleCommand (command_line args)
                         \<lparr>no_pipe = Some False, fail_on_returncode = Some True,
                          asynchronous = Some False, disown = Some False,
                          no_output = None, pty = Some True\<rparr>])
       \<and> (map_of cfg ''display_mode'' = None \<longrightarrow>
            snd (launch_single_vm E (JObj cfg) overwrite_image kill_running_vms tr) =
                tr1 @ [RunSingleCommand (command_line args)
                         \<lparr>no_pipe = Some False, fail_on_returncode = Some True,
                          asynchronous = Some False, disown = Some False,
                          no_output = None, pty = Some True\<rparr>])"
  using display_mode_cases [OF assms] launch_after_build [OF assms(2)]
  by (auto simp: detached_discipline_def blocking_pty_discipline_def)

theorem display_mode_discipline_witness:
  "(distinct (map fst (display_cfg (Some (JStr ''background''))))
        \<and> map_of (display_cfg (Some (JStr ''background''))) ''display_mode'' = Some (JStr ''background'')
        \<and> sublist [''-vga'', ''none'', ''-serial'', ''none'', ''-nographic''] (display_args [''-vga'', ''none'', ''-serial'', ''none'', ''-nographic''])
        \<and> snd (launch_single_vm (sample_env True False True) (JObj (display_cfg (Some (JStr ''background'')))) False True []) =
            display_trace @ [RunSingleCommand (command_line (display_args [''-vga'', ''none'', ''-serial'', ''none'', ''-nographic'']))
                         \<lparr>no_pipe = Some True, fail_on_returncode = Some True,
                          asynchronous = Some False, disown = Some True,
                          no_output = Some True, pty = None\<rparr>])
   \<and> (distinct (map fst (display_cfg (Some (JStr ''graphic''))))
        \<and> map_of (display_cfg (Some (JStr ''graphic''))) ''display_mode'' = Some (JStr ''graphic'')
        \<and> sublist [''-vga'', ''virtio''] (display_args [''-vga'', ''virtio''])
        \<and> snd (launch_single_vm (sample_env True False True) (JObj (display_cfg (Some (JStr ''graphic'')))) False True []) =
            display_trace @ [RunSingleCommand (command_line (display_args [''-vga'', ''virtio'']))
                         \<lparr>no_pipe = Some True, fail_on_returncode = Some True,
                          asynchronous = Some False, disown = Some True,
                          no_output = Some True, pty = None\<rparr>])
   \<and> (distinct (map fst (display_cfg (Some (JStr ''terminal''))))
        \<and> map_of (display_cfg (Some (JStr ''terminal''))) ''display_mode'' = Some (JStr ''terminal'')
        \<and> sublist [''-vga'', ''none'', ''-nographic''] (display_args [''-vga'', ''none'', ''-nographic''])
        \<and> snd (launch_single_vm (sample_env True False True) (JObj (display_cfg (Some (JStr ''terminal'')))) False True []) =
            display_trace @ [RunSingleCommand (command_line (display_args [''-vga'', ''none'', ''-nographic'']))
                         \<lparr>no_pipe = Some False, fail_on_returncode = Some True,
                          asynchronous = Some False, disown = Some False,
                          no_output = None, pty = Some True\<rparr>])
   \<and> (distinct (map fst (display_cfg None))
        \<and> map_of (display_cfg None) ''display_mode'' = None
        \<and> snd (launch_single_vm (sample_env True False True) (JObj (display_cfg None)) False True []) =
            display_trace @ [RunSingleCommand (command_line (display_args []))
                         \<lparr>no_pipe = Some False, fail_on_returncode = Some True,
                          asynchronous = Some False, disown = Some False,
                          no_output = None, pty = Some True\<rparr>])"
proof -
  have d_bg: "distinct (map fst (display_cfg (Some (JStr ''background''))))" by (simp add: display_cfg_def)
  have m_bg: "map_of (display_cfg (Some (JStr ''background''))) ''display_mode'' = Some (JStr ''background'')" by (simp add: display_cfg_def)
  from display_mode_discipline [OF d_bg build_display(3)] m_bg
  have r_bg: "sublist [''-vga'', ''none'', ''-serial'', ''none'', ''-nographic''] (display_args [''-vga'', ''none'', ''-serial'', ''none'', ''-nographic''])
        \<and> snd (launch_single_vm (sample_env True False True) (JObj (display_cfg (Some (JStr ''background'')))) False True []) =
            display_trace @ [RunSingleCommand (command_line (display_args [''-vga'', ''none'', ''-serial'', ''none'', ''-nographic'']))
                         \<lparr>no_pipe = Some True, fail_on_returncode = Some True,
                          asynchronous = Some False, disown = Some True,
                          no_output = Some True, pty = None\<rparr>]"
    by simp
  have d_gr: "distinct (map fst (display_cfg (Some (JStr ''graphic''))))" by (simp add: display_cfg_def)
  have m_gr: "map_of (display_cfg (Some (JStr ''graphic''))) ''display_mode'' = Some (JStr ''graphic'')" by (simp add: display_cfg_def)
  from display_mode_discipline [OF d_gr build_display(4)] m_gr
  have r_gr: "sublist [''-vga'', ''virtio''] (display_args [''-vga'', ''virtio''])
        \<and> snd (launch_single_vm (sample_env True False True) (JObj (display_cfg (Some (JStr ''graphic'')))) False True []) =
            display_trace @ [RunSingleCommand (command_line (display_args [''-vga'', ''virtio'']))
                         \<lparr>no_pipe = Some True, fail_on_returncode = Some True,
                          asynchronous = Some False, disown = Some True,
                          no_output = Some True, pty = None\<rparr>]"
    by simp
  have d_te: "distinct (map fst (display_cfg (Some (JStr ''terminal''))))" by (simp add: display_cfg_def)
  have m_te: "map_of (display_cfg (Some (JStr ''terminal''))) ''display_mode'' = Some (JStr ''terminal'')" by (simp add: display_cfg_def)
  from display_mode_discipline [OF d_te build_display(2)] m_te
  have r_te: "sublist [''-vga'', ''none'', ''-nographic''] (display_args [''-vga'', ''none'', ''-nographic''])
        \<and> snd (launch_single_vm (sample_env True False True) (JObj (display_cfg (Some (JStr ''terminal'')))) False True []) =
            display_trace @ [RunSingleCommand (command_line (display_args [''-vga'', ''none'', ''-nographic'']))
                         \<lparr>no_pipe = Some False, fail_on_returncode = Some True,
                          asynchronous = Some False, disown = Some False,
                          no_output = None, pty = Some True\<rparr>]"
    by simp
  have d_no: "distinct (map fst (display_cfg None))" by (simp add: display_cfg_def)
  have m_no: "map_of (display_cfg None) ''display_mode'' = None" by (simp add: display_cfg_def)
  from display_mode_discipline [OF d_no build_display(1)] m_no
  have r_no: "snd (launch_single_vm (sample_env True False True) (JObj (display_cfg None)) False True []) =
            display_trace @ [RunSingleCommand (command_line (display_args []))
                         \<lparr>no_pipe = Some False, fail_on_returncode = Some True,
                          asynchronous = Some False, disown = Some False,
                          no_output = None, pty = Some True\<rparr>]"
    by simp
  from d_bg m_bg r_bg d_gr m_gr r_gr d_te m_te r_te d_no m_no r_no show ?thesis by blast
qed

section \<open>Rejected configurations\<close>

lemma io_bind_Inl:
  "io_bind m f tr = (Inl e, tr') \<longleftrightarrow>
     m tr = (Inl e, tr') \<or> (\<exists>x tr1. m tr = (Inr x, tr1) \<and> f x tr1 = (Inl e, tr'))"
  by (auto simp: io_bind_def split: prod.splits sum.splits)

lemma emits_weaken: "emits P m \<Longrightarrow> (\<And>e. P e \<Longrightarrow> Q e) \<Longrightarrow> emits Q m"
  unfolding emits_def by (metis list.pred_mono_strong)

lemma setup_event_quiet: "is_setup_event ev \<Longrightarrow> \<not> is_transfer ev \<and> \<not> is_launch ev"
  by (cases ev) (simp_all add: is_setup_event_def)

lemma setup_events_quiet:
  "list_all is_setup_event evs \<Longrightarrow> transfers evs = [] \<and> filter is_launch evs = []"
  by (induction evs) (auto simp: transfers_def dest: setup_event_quiet)

lemma probe_primary_first:
  assumes "map_of cfg ''remote_disk_image_path'' = Some rp"
  shows "\<exists>evs. snd (probe_primary E (JObj cfg) kill tr) = tr @ CheckFileExists rp # evs
           \<and> list_all is_setup_event evs"
  using assms
  by (simp add: probe_primary_def check_file_exists_def validate_image_use_def io_defs
      is_setup_event_def split: option.split bool.split)

lemma config_loop_setup:
  "config_loop E kvs args dm tr = (r, tr') \<Longrightarrow> \<exists>evs. tr' = tr @ evs \<and> list_all is_setup_event evs"
  using emitsD [OF emits_weaken [OF emits_config, of is_setup_event]]
  by (simp add: is_setup_event_def)

lemma build_args_Inl:
  "build_args E (JObj cfg) ow kill tr = (Inl e, tr') \<longleftrightarrow>
     probe_primary E (JObj cfg) kill tr = (Inl e, tr')
   \<or> (\<exists>tr1. probe_primary E (JObj cfg) kill tr = (Inr (), tr1)
        \<and> (config_loop E cfg [''-accel'', ''kvm'', ''-cpu'', ''max''] [] tr1 = (Inl e, tr')
           \<or> (\<exists>pre dm tr2.
                 config_loop E cfg [''-accel'', ''kvm'', ''-cpu'', ''max''] [] tr1 = (Inr (pre, dm), tr2)
               \<and> stage_disks E (JObj cfg) ow pre tr2 = (Inl e, tr'))))"
  by (auto simp: build_args_def io_bind_Inl io_Inr io_lift_def io_return_def)

lemma launch_build_fails:
  "build_args E vm ow kill tr = (Inl e, tr') \<Longrightarrow> launch_single_vm E vm ow kill tr = (Inl e, tr')"
  by (simp add: launch_single_vm_def io_bind_def)

lemma stage_disks_empty:
  "map_of cfg ''remote_disk_image_path'' = Some (JStr []) \<Longrightarrow>
   stage_disks E (JObj cfg) ow args tr = (Inl (SysExit RemotePathRequired), tr)"
  by (simp add: stage_disks_def io_defs)

lemma build_args_setup_trace:
  assumes rp: "map_of cfg ''remote_disk_image_path'' = Some rp"
    and p: "probe_primary E (JObj cfg) kill tr = (r1, tr1)"
    and c: "config_loop E cfg args dm tr1 = (r2, tr2)"
  shows "\<exists>evs. tr2 = tr @ CheckFileExists rp # evs \<and> list_all is_setup_event evs"
proof -
  from probe_primary_first [OF rp, of E kill tr] p obtain e1 where
    e1: "tr1 = tr @ CheckFileExists rp # e1" "list_all is_setup_event e1" by auto
  from config_loop_setup [OF c] obtain e2 where
    e2: "tr2 = tr1 @ e2" "list_all is_setup_event e2" by blast
  from e1 e2 have "tr2 = tr @ CheckFileExists rp # (e1 @ e2)" "list_all is_setup_event (e1 @ e2)"
    by simp_all
  then show ?thesis by blast
qed

text \<open>
  Claim C7, as amended. A configuration whose \<^verbatim>\<open>remote_disk_image_path\<close> is present and
  empty is never launched: \<open>launch_single_vm\<close> ends in an error without transferring an
  image and without starting the hypervisor. The empty path is checked at line 123, after
  the loop over the keys, so the interfaces may have been created by then. When the steps
  before the check complete, the error is the diagnostic that the path is required, with
  \<^verbatim>\<open>sys.exit(1)\<close>.
\<close>

theorem empty_path_rejected:
  assumes "map_of cfg ''remote_disk_image_path'' = Some (JStr [])"
  shows "\<exists>e evs.
           launch_single_vm E (JObj cfg) overwrite_image kill_running_vms tr = (Inl e, tr @ evs)
         \<and> transfers evs = [] \<and> filter is_launch evs = []
         \<and> ((\<exists>tr1 r tr2. probe_primary E (JObj cfg) kill_running_vms tr = (Inr (), tr1)
               \<and> config_loop E cfg [''-accel'', ''kvm'', ''-cpu'', ''max''] [] tr1 = (Inr r, tr2))
             \<longrightarrow> e = SysExit RemotePathRequired)"
proof -
  let ?base = "[''-accel'', ''kvm'', ''-cpu'', ''max'']"
  obtain r0 tr' where res: "build_args E (JObj cfg) overwrite_image kill_running_vms tr = (r0, tr')"
    by (cases "build_args E (JObj cfg) overwrite_image kill_running_vms tr")
  have "\<exists>e. r0 = Inl e"
  proof (cases r0)
    case (Inr ad)
    obtain a d where "ad = (a, d)" by (cases ad)
    with res Inr obtain pre tr2 where
      "stage_disks E (JObj cfg) overwrite_image pre tr2 = (Inr a, tr')"
      by (auto elim: build_args_Inr)
    with stage_disks_empty [OF assms, of E overwrite_image pre tr2] show ?thesis by simp
  qed simp
  then obtain e where r0: "r0 = Inl e" by blast
  note fails = res [unfolded r0]
  from fails [unfolded build_args_Inl] consider
      (probe) "probe_primary E (JObj cfg) kill_running_vms tr = (Inl e, tr')"
    | (config) tr1 where "probe_primary E (JObj cfg) kill_running_vms tr = (Inr (), tr1)"
        "config_loop E cfg ?base [] tr1 = (Inl e, tr')"
    | (stage) tr1 pre dm tr2 where "probe_primary E (JObj cfg) kill_running_vms tr = (Inr (), tr1)"
        "config_loop E cfg ?base [] tr1 = (Inr (pre, dm), tr2)"
        "stage_disks E (JObj cfg) overwrite_image pre tr2 = (Inl e, tr')"
    by blast
  then have "\<exists>evs. tr' = tr @ CheckFileExists (JStr []) # evs \<and> list_all is_setup_event evs
      \<and> ((\<exists>tr1 r tr2. probe_primary E (JObj cfg) kill_running_vms tr = (Inr (), tr1)
               \<and> config_loop E cfg ?base [] tr1 = (Inr r, tr2))
             \<longrightarrow> e = SysExit RemotePathRequired)"
  proof cases
    case probe
    from probe_primary_first [OF assms, of E kill_running_vms tr] probe
    show ?thesis by auto
  next
    case (config tr1)
    from build_args_setup_trace [OF assms config(1) config(2)] config show ?thesis by auto
  next
    case (stage tr1 pre dm tr2)
    from stage(3) stage_disks_empty [OF assms, of E overwrite_image pre tr2]
    have e: "e = SysExit RemotePathRequired" and t: "tr' = tr2" by simp_all
    from build_args_setup_trace [OF assms stage(1) stage(2)] e t show ?thesis by auto
  qed
  then obtain evs where evs: "tr' = tr @ CheckFileExists (JStr []) # evs"
    "list_all is_setup_event evs"
    "(\<exists>tr1 r tr2. probe_primary E (JObj cfg) kill_running_vms tr = (Inr (), tr1)
               \<and> config_loop E cfg ?base [] tr1 = (Inr r, tr2))
             \<longrightarrow> e = SysExit RemotePathRequired"
    by blast
  from launch_build_fails [OF fails] evs(1)
  have l: "launch_single_vm E (JObj cfg) overwrite_image kill_running_vms tr =
          (Inl e, tr @ (CheckFileExists (JStr []) # evs))" by simp
  from evs(2) have "list_all is_setup_event (CheckFileExists (JStr []) # evs)"
    by (simp add: is_setup_event_def)
  from l setup_events_quiet [OF this] evs(3) show ?thesis by blast
qed

theorem empty_path_rejected_witness:
  "map_of empty_path_cfg ''remote_disk_image_path'' = Some (JStr [])
   \<and> (\<exists>e evs.
         launch_single_vm (sample_env False False True) (JObj empty_path_cfg) False True [] =
           (Inl e, [] @ evs)
       \<and> transfers evs = [] \<and> filter is_launch evs = []
       \<and> ((\<exists>tr1 r tr2.
              probe_primary (sample_env False False True) (JObj empty_path_cfg) True [] = (Inr (), tr1)
            \<and> config_loop (sample_env False False True) empty_path_cfg
                 [''-accel'', ''kvm'', ''-cpu'', ''max''] [] tr1 = (Inr r, tr2))
           \<longrightarrow> e = SysExit RemotePathRequired))
   \<and> probe_primary (sample_env False False True) (JObj empty_path_cfg) True [] =
       (Inr (), [CheckFileExists (JStr [])])
   \<and> fst (config_loop (sample_env False False True) empty_path_cfg
            [''-accel'', ''kvm'', ''-cpu'', ''max''] [] [CheckFileExists (JStr [])]) =
       Inr ([''-accel'', ''kvm'', ''-cpu'', ''max'', ''-tap'', ''4''], [])"
proof -
  have m: "map_of empty_path_cfg ''remote_disk_image_path'' = Some (JStr [])"
    by (simp add: empty_path_cfg_def)
  have p: "probe_primary (sample_env False False True) (JObj empty_path_cfg) True [] =
       (Inr (), [CheckFileExists (JStr [])])"
    by (simp add: probe_primary_def call_defs io_defs sample_env_def empty_path_cfg_def)
  have c: "fst (config_loop (sample_env False False True) empty_path_cfg
            [''-accel'', ''kvm'', ''-cpu'', ''max''] [] [CheckFileExists (JStr [])]) =
       Inr ([''-accel'', ''kvm'', ''-cpu'', ''max'', ''-tap'', ''4''], [])"
    by (simp add: call_defs io_defs sample_env_def empty_path_cfg_def iface_def
        string_of_nat.simps digit_char_def)
  from empty_path_rejected [OF m, of "sample_env False False True" False True "[]"] m p c
  show ?thesis by blast
qed

lemma launch_empty_path:
  "launch_single_vm (sample_env False False True) (JObj empty_path_cfg) False True [] =
     (Inl (SysExit RemotePathRequired),
      [CheckFileExists (JStr []), TapCreate (iface ''tap''), TapGetArgs (iface ''tap'') 4])"
  by (simp add: launch_single_vm_def build_args_def probe_primary_def stage_disks_def
      call_defs io_defs sample_env_def empty_path_cfg_def iface_def)


text \<open>
  The claim as stated (rejection before any remote action) fails: on the sample host a
  configuration with one tap interface and an empty path is rejected after the existence
  probe, the creation of the interface and its \<^verbatim>\<open>get_args\<close>.
\<close>

theorem empty_path_probed_counterexample:
  "map_of empty_path_cfg ''remote_disk_image_path'' = Some (JStr [])
   \<and> launch_single_vm (sample_env False False True) (JObj empty_path_cfg) False True [] =
       (Inl (SysExit RemotePathRequired),
        [CheckFileExists (JStr []), TapCreate (iface ''tap''), TapGetArgs (iface ''tap'') 4])
   \<and> calls_made (launch_single_vm (sample_env False False True) (JObj empty_path_cfg) False True) []
       \<noteq> []"
proof -
  have "map_of empty_path_cfg ''remote_disk_image_path'' = Some (JStr [])"
    by (simp add: empty_path_cfg_def)
  then show ?thesis by (simp add: launch_empty_path calls_made_def)
qed

section \<open>The absent display mode\<close>

lemma map_out_simps:
  "map_out f (Inl e, t) = (Inl e, t)"
  "map_out f (Inr x, t) = (Inr (f x), t)"
  by (simp_all add: map_out_def)

lemma map_out_bind:
  "map_out f (io_bind m g tr) = io_bind m (\<lambda>x tr. map_out f (g x tr)) tr"
  by (simp add: io_bind_def map_out_def split: prod.split sum.split)

lemma io_bind_cong_run:
  "(\<And>x tr1. m tr = (Inr x, tr1) \<Longrightarrow> f x tr1 = g x tr1) \<Longrightarrow> io_bind m f tr = io_bind m g tr"
  by (simp add: io_bind_def split: prod.split sum.split)

lemma interfaces_loop_acc:
  "interfaces_loop E ifs i (p @ args) tr = map_out ((@) p) (interfaces_loop E ifs i args tr)"
proof (induction ifs arbitrary: i args tr)
  case Nil
  show ?case by (simp add: io_return_def map_out_def)
next
  case (Cons x ifs)
  show ?case
    unfolding interfaces_loop.simps map_out_bind
    by (intro io_bind_cong_run)
       (simp add: map_out_bind io_fail_def map_out_simps Cons.IH [symmetric]
          cong: if_cong)
qed


lemma key_step_acc:
  "key_step E key v (p @ args) dm =
     (case key_step E key v args dm of Inl e \<Rightarrow> Inl e | Inr (a, d) \<Rightarrow> Inr (p @ a, d))"
  by (simp add: key_step_def)

lemma config_loop_acc:
  "config_loop E kvs (p @ args) dm tr =
     map_out (apfst ((@) p)) (config_loop E kvs args dm tr)"
proof (induction kvs arbitrary: args dm tr)
  case Nil
  show ?case by (simp add: io_return_def map_out_def)
next
  case (Cons kv kvs)
  obtain key v where kv: "kv = (key, v)" by (cases kv)
  show ?case
  proof (cases "key = ''interfaces''")
    case True
    show ?thesis
      unfolding kv config_loop_Cons map_out_bind using True
      by (simp add: map_out_bind interfaces_loop_acc Cons.IH io_bind_def map_out_def
          split: prod.split sum.split)
  next
    case False
    show ?thesis
      unfolding kv config_loop_Cons using False
      by (simp add: key_step_acc Cons.IH io_fail_def map_out_def split: sum.split prod.split)
  qed
qed

lemma config_loop_append:
  "config_loop E (c1 @ c2) args dm tr =
     io_bind (config_loop E c1 args dm) (\<lambda>(a, d). config_loop E c2 a d) tr"
proof (induction c1 arbitrary: args dm tr)
  case Nil
  show ?case by (simp add: io_bind_def io_return_def)
next
  case (Cons kv c1)
  obtain key v where kv: "kv = (key, v)" by (cases kv)
  show ?case
  proof (cases "key = ''interfaces''")
    case True
    show ?thesis
      unfolding kv append_Cons config_loop_Cons using True
      by (simp add: Cons.IH io_bind_def split: prod.split sum.split)
  next
    case False
    show ?thesis
      unfolding kv append_Cons config_loop_Cons using False
      by (simp add: Cons.IH io_bind_def io_fail_def split: prod.split sum.split)
  qed
qed

lemma additional_disks_acc:
  "additional_disks_loop E vs ow n (p @ args) tr =
     map_out ((@) p) (additional_disks_loop E vs ow n args tr)"
proof (induction vs arbitrary: n args tr)
  case Nil
  show ?case by (simp add: io_return_def map_out_def)
next
  case (Cons v vs)
  show ?case
    unfolding additional_disks_loop.simps map_out_bind
    by (simp add: Cons.IH [symmetric])
qed

lemma stage_disks_acc:
  "stage_disks E vm ow (p @ args) tr = map_out ((@) p) (stage_disks E vm ow args tr)"
  unfolding stage_disks_def map_out_bind
  by (intro io_bind_cong_run)
     (simp add: map_out_bind io_fail_def map_out_simps additional_disks_acc [symmetric])

lemma lookup_past_display:
  "k \<noteq> ''display_mode'' \<Longrightarrow>
   map_of (c1 @ (''display_mode'', v) # c2) k = map_of (c1 @ c2) k"
  by (simp add: map_add_def split: option.split)

lemma py_getitem_past_display:
  assumes "k \<noteq> ''display_mode''"
  shows "py_getitem (JObj (c1 @ (''display_mode'', v) # c2)) k = py_getitem (JObj (c1 @ c2)) k"
  unfolding py_getitem.simps lookup_past_display [OF assms] by (rule refl)

lemma py_get_past_display:
  assumes "k \<noteq> ''display_mode''"
  shows "py_get (JObj (c1 @ (''display_mode'', v) # c2)) k d = py_get (JObj (c1 @ c2)) k d"
  unfolding py_get.simps lookup_past_display [OF assms] by (rule refl)

lemma probe_primary_past_display:
  "probe_primary E (JObj (c1 @ (''display_mode'', v) # c2)) kill =
   probe_primary E (JObj (c1 @ c2)) kill"
proof -
  have "py_getitem (JObj (c1 @ (''display_mode'', v) # c2)) ''remote_disk_image_path'' =
        py_getitem (JObj (c1 @ c2)) ''remote_disk_image_path''"
    by (rule py_getitem_past_display) simp
  then show ?thesis unfolding probe_primary_def by (simp only:)
qed

lemma stage_disks_past_display:
  "stage_disks E (JObj (c1 @ (''display_mode'', v) # c2)) ow args =
   stage_disks E (JObj (c1 @ c2)) ow args"
proof -
  have "py_getitem (JObj (c1 @ (''display_mode'', v) # c2)) ''remote_disk_image_path'' =
        py_getitem (JObj (c1 @ c2)) ''remote_disk_image_path''"
    by (rule py_getitem_past_display) simp
  moreover have "\<And>d. py_get (JObj (c1 @ (''display_mode'', v) # c2)) ''remote_disk_image_path'' d =
        py_get (JObj (c1 @ c2)) ''remote_disk_image_path'' d"
    by (rule py_get_past_display) simp
  moreover have "\<And>d. py_get (JObj (c1 @ (''display_mode'', v) # c2)) ''local_disk_image_path'' d =
        py_get (JObj (c1 @ c2)) ''local_disk_image_path'' d"
    by (rule py_get_past_display) simp
  moreover have "\<And>d. py_get (JObj (c1 @ (''display_mode'', v) # c2)) ''additional_disk_images'' d =
        py_get (JObj (c1 @ c2)) ''additional_disk_images'' d"
    by (rule py_get_past_display) simp
  ultimately show ?thesis unfolding stage_disks_def by (simp only:)
qed

lemma build_args_intro:
  assumes "probe_primary E (JObj cfg) kill tr = (Inr (), tr0)"
    and "config_loop E cfg [''-accel'', ''kvm'', ''-cpu'', ''max''] [] tr0 = (Inr (pre, dm), tr2)"
    and "stage_disks E (JObj cfg) ow pre tr2 = (Inr args, tr1)"
  shows "build_args E (JObj cfg) ow kill tr = (Inr (args, dm), tr1)"
  using assms by (simp add: build_args_def io_bind_def io_lift_def io_return_def)

lemma config_loop_terminal_inserted:
  assumes "config_loop E (c1 @ c2) args dm tr = (Inr (pre, d'), tr')"
  shows "\<exists>a m. pre = a @ m
           \<and> config_loop E (c1 @ (''display_mode'', JStr ''terminal'') # c2) args dm tr =
               (Inr (a @ [''-vga'', ''none'', ''-nographic''] @ m, d'), tr')"
proof -
  let ?frag = "[''-vga'', ''none'', ''-nographic'']"
  from assms obtain a d t where
    c1: "config_loop E c1 args dm tr = (Inr (a, d), t)" and
    c2: "config_loop E c2 a d t = (Inr (pre, d'), tr')"
    by (auto simp: config_loop_append io_bind_Inr)
  from config_loop_acc [of E c2 a "[]" d t] c2 obtain m where
    m: "config_loop E c2 [] d t = (Inr (m, d'), tr')" and pre: "pre = a @ m"
    by (cases "config_loop E c2 [] d t") (auto simp: map_out_def split: sum.splits)
  from config_loop_acc [of E c2 "a @ ?frag" "[]" d t] m
  have "config_loop E c2 (a @ ?frag) d t = (Inr (a @ ?frag @ m, d'), tr')"
    by (simp add: map_out_def)
  then have "config_loop E ((''display_mode'', JStr ''terminal'') # c2) a d t =
               (Inr (a @ ?frag @ m, d'), tr')"
    by (simp add: config_loop_Cons key_step_def)
  with c1 have "config_loop E (c1 @ (''display_mode'', JStr ''terminal'') # c2) args dm tr =
               (Inr (a @ ?frag @ m, d'), tr')"
    by (simp add: config_loop_append io_bind_def)
  with pre show ?thesis by blast
qed

text \<open>
  Claim C9, as amended. A configuration with no \<^verbatim>\<open>display_mode\<close> key is launched with
  the same blocking interactive-pty discipline as the same configuration with
  \<^verbatim>\<open>display_mode = "terminal"\<close>, after the same calls, but not with the same argument
  vector: \<^verbatim>\<open>"terminal"\<close> adds \<^verbatim>\<open>-vga none -nographic\<close> at the place of the key, and the
  absent key adds nothing. The two vectors differ by exactly that fragment.
\<close>

theorem absent_display_mode_vs_terminal:
  assumes "''display_mode'' \<notin> fst ` set (c1 @ c2)"
    and "build_args E (JObj (c1 @ c2)) overwrite_image kill_running_vms tr =
           (Inr (args, display_mode), tr1)"
  shows "\<exists>a1 a2. args = a1 @ a2
         \<and> build_args E (JObj (c1 @ (''display_mode'', JStr ''terminal'') # c2))
               overwrite_image kill_running_vms tr =
             (Inr (a1 @ [''-vga'', ''none'', ''-nographic''] @ a2, display_mode), tr1)
         \<and> snd (launch_single_vm E (JObj (c1 @ c2)) overwrite_image kill_running_vms tr) =
             tr1 @ [RunSingleCommand (command_line (a1 @ a2)) blocking_pty_discipline]
         \<and> snd (launch_single_vm E (JObj (c1 @ (''display_mode'', JStr ''terminal'') # c2))
                  overwrite_image kill_running_vms tr) =
             tr1 @ [RunSingleCommand (command_line (a1 @ [''-vga'', ''none'', ''-nographic''] @ a2))
                      blocking_pty_discipline]"
proof -
  let ?base = "[''-accel'', ''kvm'', ''-cpu'', ''max'']"
  let ?frag = "[''-vga'', ''none'', ''-nographic'']"
  let ?cfg' = "c1 @ (''display_mode'', JStr ''terminal'') # c2"
  from assms(2) obtain tr0 pre tr2 where
    p: "probe_primary E (JObj (c1 @ c2)) kill_running_vms tr = (Inr (), tr0)" and
    c: "config_loop E (c1 @ c2) ?base [] tr0 = (Inr (pre, display_mode), tr2)" and
    s: "stage_disks E (JObj (c1 @ c2)) overwrite_image pre tr2 = (Inr args, tr1)"
    by (rule build_args_Inr)
  from config_loop_no_display [OF c assms(1)] have dm: "display_mode = []" .
  from config_loop_terminal_inserted [OF c] obtain a m where
    pre: "pre = a @ m" and
    c': "config_loop E ?cfg' ?base [] tr0 = (Inr (a @ ?frag @ m, display_mode), tr2)"
    by blast
  from stage_disks_acc [of E "JObj (c1 @ c2)" overwrite_image pre "[]" tr2] s obtain ds where
    ds: "stage_disks E (JObj (c1 @ c2)) overwrite_image [] tr2 = (Inr ds, tr1)"
    and args: "args = pre @ ds"
    by (cases "stage_disks E (JObj (c1 @ c2)) overwrite_image [] tr2")
       (auto simp: map_out_def split: sum.splits)
  from stage_disks_acc [of E "JObj (c1 @ c2)" overwrite_image "a @ ?frag @ m" "[]" tr2] ds
  have "stage_disks E (JObj (c1 @ c2)) overwrite_image (a @ ?frag @ m) tr2 =
          (Inr (a @ ?frag @ m @ ds), tr1)"
    by (simp add: map_out_def)
  then have s': "stage_disks E (JObj ?cfg') overwrite_image (a @ ?frag @ m) tr2 =
          (Inr (a @ ?frag @ (m @ ds)), tr1)"
    by (simp add: stage_disks_past_display)
  from p have p': "probe_primary E (JObj ?cfg') kill_running_vms tr = (Inr (), tr0)"
    by (simp add: probe_primary_past_display)
  have b': "build_args E (JObj ?cfg') overwrite_image kill_running_vms tr =
              (Inr (a @ ?frag @ (m @ ds), display_mode), tr1)"
    by (rule build_args_intro [OF p' c' s'])
  have a: "args = a @ (m @ ds)" using args pre by simp
  from launch_after_build [OF assms(2)] dm a
  have l: "snd (launch_single_vm E (JObj (c1 @ c2)) overwrite_image kill_running_vms tr) =
             tr1 @ [RunSingleCommand (command_line (a @ (m @ ds))) blocking_pty_discipline]"
    by simp
  from launch_after_build [OF b'] dm
  have l': "snd (launch_single_vm E (JObj ?cfg') overwrite_image kill_running_vms tr) =
             tr1 @ [RunSingleCommand (command_line (a @ ?frag @ (m @ ds))) blocking_pty_discipline]"
    by simp
  from a b' l l' show ?thesis by blast
qed

theorem absent_display_mode_vs_terminal_witness:
  "''display_mode'' \<notin> fst ` set ([] @ display_cfg None)
   \<and> build_args (sample_env True False True) (JObj ([] @ display_cfg None)) False True [] =
       (Inr (display_args [], []), display_trace)
   \<and> (\<exists>a1 a2. display_args [] = a1 @ a2
         \<and> build_args (sample_env True False True)
               (JObj ([] @ (''display_mode'', JStr ''terminal'') # display_cfg None)) False True [] =
             (Inr (a1 @ [''-vga'', ''none'', ''-nographic''] @ a2, []), display_trace)
         \<and> snd (launch_single_vm (sample_env True False True) (JObj ([] @ display_cfg None))
                  False True []) =
             display_trace @ [RunSingleCommand (command_line (a1 @ a2)) blocking_pty_discipline]
         \<and> snd (launch_single_vm (sample_env True False True)
                  (JObj ([] @ (''display_mode'', JStr ''terminal'') # display_cfg None))
                  False True []) =
             display_trace @
               [RunSingleCommand (command_line (a1 @ [''-vga'', ''none'', ''-nographic''] @ a2))
                  blocking_pty_discipline])"
proof -
  have h: "''display_mode'' \<notin> fst ` set ([] @ display_cfg None)"
    by (simp add: display_cfg_def)
  have b: "build_args (sample_env True False True) (JObj ([] @ display_cfg None)) False True [] =
       (Inr (display_args [], []), display_trace)"
    using build_display(1) by simp
  from absent_display_mode_vs_terminal [OF h b] h b show ?thesis by blast
qed


text \<open>
  The claim as stated (equal argument vectors) fails on the one-disk sample VM: without
  the key the vector has no \<^verbatim>\<open>-vga none -nographic\<close>.
\<close>

theorem absent_display_mode_counterexample:
  "map_of (display_cfg None) ''display_mode'' = None
   \<and> map_of (display_cfg (Some (JStr ''terminal''))) ''display_mode'' = Some (JStr ''terminal'')
   \<and> build_args (sample_env True False True) (JObj (display_cfg None)) False True [] =
       (Inr ([''-accel'', ''kvm'', ''-cpu'', ''max'', ''-drive'',
              ''file=vm.qcow2,format=qcow2,if=virtio,index=0,media=disk''], []), display_trace)
   \<and> build_args (sample_env True False True) (JObj (display_cfg (Some (JStr ''terminal''))))
        False True [] =
       (Inr ([''-accel'', ''kvm'', ''-cpu'', ''max'', ''-vga'', ''none'', ''-nographic'', ''-drive'',
              ''file=vm.qcow2,format=qcow2,if=virtio,index=0,media=disk''], []), display_trace)
   \<and> fst (build_args (sample_env True False True) (JObj (display_cfg None)) False True []) \<noteq>
     fst (build_args (sample_env True False True) (JObj (display_cfg (Some (JStr ''terminal''))))
            False True [])"
proof -
  have "map_of (display_cfg None) ''display_mode'' = None"
    "map_of (display_cfg (Some (JStr ''terminal''))) ''display_mode'' = Some (JStr ''terminal'')"
    by (simp_all add: display_cfg_def)
  then show ?thesis by (simp add: build_display display_args_def)
qed

section \<open>The command line and the kill flag\<close>

lemma emits_host_calls:
  "P (BridgeCreate i) \<Longrightarrow> emits P (bridge_create E i)"
  "P (MacVlanCreate i) \<Longrightarrow> emits P (macvlan_create E i)"
  "P (GetPass h) \<Longrightarrow> emits P (getpass E h)"
  "P (CreateConnection c) \<Longrightarrow> emits P (create_connection_from_config E c)"
  "P (LoadJson p) \<Longrightarrow> emits P (load_json E p)"
  "P (CreateTask t) \<Longrightarrow> emits P (create_task t)"
  by (simp_all add: emits_def call_defs call_def split: option.split)

lemma emits_flags:
  assumes "emits (\<lambda>ev. set (f ev) \<subseteq> S) m"
  shows "set (concat (map f (calls_made m tr))) \<subseteq> S"
proof -
  from assms obtain evs where evs: "snd (m tr) = tr @ evs" "list_all (\<lambda>ev. set (f ev) \<subseteq> S) evs"
    unfolding emits_def by blast
  then have "calls_made m tr = evs" by (simp add: calls_made_def)
  with evs(2) show ?thesis by (auto simp: list_all_iff)
qed

lemma emits_spawn_hosts:
  "emits (\<lambda>ev. set (host_task_flags ev) \<subseteq> {(ow, True)}) (spawn_hosts_loop hosts ow)"
proof (induction hosts)
  case Nil
  show ?case by (simp add: emits_return)
next
  case (Cons h hosts)
  show ?case unfolding spawn_hosts_loop.simps
    by (intro emits_bind emits_lift emits_host_calls Cons.IH) simp
qed

lemma emits_main:
  "emits (\<lambda>ev. set (host_task_flags ev) \<subseteq> {(overwrite_image_flag args, True)}) (main E args)"
  unfolding main_def
proof (intro emits_bind emits_host_calls)
  show "set (host_task_flags (LoadJson (json_path args))) \<subseteq> {(overwrite_image_flag args, True)}"
    by simp
next
  fix loaded
  show "emits (\<lambda>ev. set (host_task_flags ev) \<subseteq> {(overwrite_image_flag args, True)})
          (case loaded of None \<Rightarrow> io_fail (SysExit JsonUnreadable)
           | Some configuration \<Rightarrow>
               io_bind (io_lift (py_iter configuration))
                 (\<lambda>hosts. spawn_hosts_loop hosts (overwrite_image_flag args)))"
    by (cases loaded) (auto intro!: emits_fail emits_bind emits_lift emits_spawn_hosts)
qed

lemma emits_spawn_vms:
  "emits (\<lambda>ev. set (vm_task_flags ev) \<subseteq> {(ow, kill)}) (spawn_vms_loop E vms ssh ow kill)"
proof (induction vms)
  case Nil
  show ?case by (simp add: emits_return)
next
  case (Cons v vms)
  show ?case unfolding spawn_vms_loop.simps
    by (intro emits_bind emits_host_calls Cons.IH) simp_all
qed

lemma emits_host_network:
  "emits (\<lambda>ev. set (vm_task_flags ev) \<subseteq> S) (setup_host_network_loop E ifaces)"
proof (induction ifaces)
  case Nil
  show ?case by (simp add: emits_return)
next
  case (Cons i ifaces)
  show ?case unfolding setup_host_network_loop.simps
    by (intro emits_bind emits_if emits_lift emits_fail emits_host_calls Cons.IH) simp_all
qed

lemma emits_run_vms:
  "emits (\<lambda>ev. set (vm_task_flags ev) \<subseteq> {(ow, kill)})
     (run_vms_on_single_host E vms hn ssh ow kill)"
  unfolding run_vms_on_single_host_def setup_host_network_def
  by (intro emits_bind emits_if emits_lift emits_return emits_host_calls emits_host_network
      emits_spawn_vms) simp_all

lemma probe_primary_kill:
  assumes "map_of cfg ''remote_disk_image_path'' = Some rp"
    and "ans_check_file_exists E tr rp = Some True"
  shows "snd (probe_primary E (JObj cfg) kill tr) =
           tr @ [CheckFileExists rp, ValidateImageUse rp (Some kill)]"
    and "ans_validate_image_use E (tr @ [CheckFileExists rp]) rp (Some kill) = Some True \<Longrightarrow>
         probe_primary E (JObj cfg) kill tr =
           (Inr (), tr @ [CheckFileExists rp, ValidateImageUse rp (Some kill)])"
  using assms
  by (simp_all add: probe_primary_def check_file_exists_def validate_image_use_def io_defs
      split: option.split bool.split)

lemma io_bind_extends:
  assumes "m tr = (r, tr1)" and "\<And>x. emits P (f x)"
  shows "\<exists>evs. snd (io_bind m f tr) = tr1 @ evs"
proof (cases r)
  case (Inl e)
  with assms(1) show ?thesis by (simp add: io_bind_def)
next
  case (Inr x)
  from assms(2) [of x] obtain evs where "snd (f x tr1) = tr1 @ evs" unfolding emits_def by blast
  with assms(1) Inr show ?thesis by (simp add: io_bind_def)
qed

lemma emits_any: "emits P m \<Longrightarrow> emits (\<lambda>ev. True) m"
  by (erule emits_weaken) simp

lemma io_bind_extends_const:
  assumes "m tr = (r, tr1)" and "emits P g"
  shows "\<exists>evs. snd (io_bind m (\<lambda>_. g) tr) = tr1 @ evs"
  using io_bind_extends [where m = m and tr = tr and f = "\<lambda>_. g" and P = P] assms by blast

lemma launch_extends_probe:
  assumes "snd (probe_primary E vm kill tr) = tr1"
  shows "prefix tr1 (snd (launch_single_vm E vm ow kill tr))"
proof -
  obtain r where p: "probe_primary E vm kill tr = (r, tr1)"
    using assms by (cases "probe_primary E vm kill tr") simp
  have rest: "emits (\<lambda>ev. True)
      (io_bind (io_lift (py_items vm)) (\<lambda>items.
       io_bind (config_loop E items [''-accel'', ''kvm'', ''-cpu'', ''max''] []) (\<lambda>(args, display_mode).
       io_bind (stage_disks E vm ow args) (\<lambda>args'.
       io_return (args', display_mode)))))"
    by (intro emits_bind emits_lift emits_any [OF emits_config])
       (auto intro!: emits_bind emits_return emits_any [OF emits_stage])
  from io_bind_extends_const [where m = "probe_primary E vm kill" and tr = tr, OF p rest]
  obtain e1 where
    b: "snd (build_args E vm ow kill tr) = tr1 @ e1"
    unfolding build_args_def by blast
  obtain r2 where b2: "build_args E vm ow kill tr = (r2, tr1 @ e1)"
    using b by (cases "build_args E vm ow kill tr") simp
  let ?run = "\<lambda>(args, display_mode).
          if display_mode = ''background'' \<or> display_mode = ''graphic''
          then run_single_command E (command_line args) detached_discipline
          else run_single_command E (command_line args) blocking_pty_discipline"
  have run: "\<And>x. emits (\<lambda>ev. True) (?run x)"
    by (auto intro!: emits_if emits_calls)
  from io_bind_extends [where m = "build_args E vm ow kill" and tr = tr and f = ?run, OF b2 run]
  obtain e2 where
    "snd (launch_single_vm E vm ow kill tr) = (tr1 @ e1) @ e2"
    unfolding launch_single_vm_def by blast
  then show ?thesis by (simp add: prefix_def)
qed

text \<open>
  Claim C10. Whatever the command line, every host task \<open>main\<close> creates is given
  \<^verbatim>\<open>kill_running_vms = True\<close> (and the overwrite flag of the command line), and every VM
  task such a host task creates is given the same flags: the command line has no option
  for it. So when the primary disk probes as existing, the launch asks the in-use probe
  to kill the owner, and when the probe then reports the image free the launch goes on
  past line 60 instead of ending with the in-use diagnostic.
\<close>

theorem cli_always_kills:
  "set (concat (map host_task_flags (calls_made (main E args) tr))) \<subseteq>
     {(overwrite_image_flag args, True)}
   \<and> set (concat (map vm_task_flags
          (calls_made (run_vms_on_single_host E vms host_network ssh overwrite_image True) tr1))) \<subseteq>
       {(overwrite_image, True)}
   \<and> (map_of cfg ''remote_disk_image_path'' = Some remote
        \<and> ans_check_file_exists E tr2 remote = Some True \<longrightarrow>
          prefix (tr2 @ [CheckFileExists remote, ValidateImageUse remote (Some True)])
                 (snd (launch_single_vm E (JObj cfg) overwrite_image True tr2))
        \<and> (ans_validate_image_use E (tr2 @ [CheckFileExists remote]) remote (Some True) = Some True
             \<longrightarrow> probe_primary E (JObj cfg) True tr2 =
                   (Inr (), tr2 @ [CheckFileExists remote, ValidateImageUse remote (Some True)])))"
proof (intro conjI impI)
  show "set (concat (map host_task_flags (calls_made (main E args) tr))) \<subseteq>
     {(overwrite_image_flag args, True)}"
    by (rule emits_flags [OF emits_main])
  show "set (concat (map vm_task_flags
          (calls_made (run_vms_on_single_host E vms host_network ssh overwrite_image True) tr1))) \<subseteq>
       {(overwrite_image, True)}"
    by (rule emits_flags [OF emits_run_vms])
next
  assume a: "map_of cfg ''remote_disk_image_path'' = Some remote
        \<and> ans_check_file_exists E tr2 remote = Some True"
  then have m: "map_of cfg ''remote_disk_image_path'' = Some remote"
    and c: "ans_check_file_exists E tr2 remote = Some True" by simp_all
  from launch_extends_probe [OF probe_primary_kill(1) [OF m c]]
  show "prefix (tr2 @ [CheckFileExists remote, ValidateImageUse remote (Some True)])
                 (snd (launch_single_vm E (JObj cfg) overwrite_image True tr2))" .
  assume "ans_validate_image_use E (tr2 @ [CheckFileExists remote]) remote (Some True) = Some True"
  from probe_primary_kill(2) [OF m c this]
  show "probe_primary E (JObj cfg) True tr2 =
          (Inr (), tr2 @ [CheckFileExists remote, ValidateImageUse remote (Some True)])" .
qed

lemma sample_runs:
  "main (sample_env True True True) \<lparr>json_path = ''vms.json'', overwrite_image_flag = False\<rparr> [] =
     (Inr (), [LoadJson ''vms.json'',
               CreateTask (RunVmsOnSingleHost (JList [JObj (display_cfg None)]) JNull sample_ssh
                             False True)])"
  "run_vms_on_single_host (sample_env True True True) (JList [JObj (display_cfg None)]) JNull
       sample_ssh False True [] =
     (Inr (), [GetPass (JStr ''host1''), CreateConnection sample_ssh,
               CreateTask (LaunchSingleVm (JObj (display_cfg None)) False True)])"
  "launch_single_vm (sample_env True True True) (JObj (display_cfg None)) False True [] =
     (Inr (), display_trace @
        [RunSingleCommand (command_line (display_args [])) blocking_pty_discipline])"
  by (simp_all add: main_def run_vms_on_single_host_def launch_single_vm_def
      build_args_def probe_primary_def stage_disks_def ensure_file_image_def
      call_defs io_defs sample_env_def sample_document_def sample_ssh_def display_cfg_def
      display_trace_def display_args_def drive_fragment_def string_of_nat.simps digit_char_def)

theorem cli_always_kills_witness:
  "set (concat (map host_task_flags
      (calls_made (main (sample_env True True True)
         \<lparr>json_path = ''vms.json'', overwrite_image_flag = False\<rparr>) []))) \<subseteq> {(False, True)}
   \<and> concat (map host_task_flags
      (calls_made (main (sample_env True True True)
         \<lparr>json_path = ''vms.json'', overwrite_image_flag = False\<rparr>) [])) = [(False, True)]
   \<and> set (concat (map vm_task_flags
        (calls_made (run_vms_on_single_host (sample_env True True True)
           (JList [JObj (display_cfg None)]) JNull sample_ssh False True) []))) \<subseteq> {(False, True)}
   \<and> concat (map vm_task_flags
        (calls_made (run_vms_on_single_host (sample_env True True True)
           (JList [JObj (display_cfg None)]) JNull sample_ssh False True) [])) = [(False, True)]
   \<and> map_of (display_cfg None) ''remote_disk_image_path'' = Some (JStr ''vm.qcow2'')
   \<and> ans_check_file_exists (sample_env True True True) [] (JStr ''vm.qcow2'') = Some True
   \<and> ans_validate_image_use (sample_env True True True) ([] @ [CheckFileExists (JStr ''vm.qcow2'')])
        (JStr ''vm.qcow2'') None = Some False
   \<and> ans_validate_image_use (sample_env True True True) ([] @ [CheckFileExists (JStr ''vm.qcow2'')])
        (JStr ''vm.qcow2'') (Some True) = Some True
   \<and> prefix ([] @ [CheckFileExists (JStr ''vm.qcow2''), ValidateImageUse (JStr ''vm.qcow2'') (Some True)])
        (snd (launch_single_vm (sample_env True True True) (JObj (display_cfg None)) False True []))
   \<and> probe_primary (sample_env True True True) (JObj (display_cfg None)) True [] =
       (Inr (), [] @ [CheckFileExists (JStr ''vm.qcow2''), ValidateImageUse (JStr ''vm.qcow2'') (Some True)])
   \<and> launch_single_vm (sample_env True True True) (JObj (display_cfg None)) False True [] =
       (Inr (), display_trace @
          [RunSingleCommand (command_line (display_args [])) blocking_pty_discipline])"
proof -
  note t = cli_always_kills [of "sample_env True True True"
      "\<lparr>json_path = ''vms.json'', overwrite_image_flag = False\<rparr>" "[]"
      "JList [JObj (display_cfg None)]" JNull sample_ssh False "[]"
      "display_cfg None" "JStr ''vm.qcow2''" "[]"]
  have m: "map_of (display_cfg None) ''remote_disk_image_path'' = Some (JStr ''vm.qcow2'')"
    by (simp add: display_cfg_def)
  have c: "ans_check_file_exists (sample_env True True True) [] (JStr ''vm.qcow2'') = Some True"
    by (simp add: sample_env_def)
  have busy: "ans_validate_image_use (sample_env True True True)
        ([] @ [CheckFileExists (JStr ''vm.qcow2'')]) (JStr ''vm.qcow2'') None = Some False"
    by (simp add: sample_env_def)
  have v: "ans_validate_image_use (sample_env True True True)
        ([] @ [CheckFileExists (JStr ''vm.qcow2'')]) (JStr ''vm.qcow2'') (Some True) = Some True"
    by (simp add: sample_env_def)
  have f1: "concat (map host_task_flags
      (calls_made (main (sample_env True True True)
         \<lparr>json_path = ''vms.json'', overwrite_image_flag = False\<rparr>) [])) = [(False, True)]"
    by (simp add: calls_made_def sample_runs(1))
  have f2: "concat (map vm_task_flags
        (calls_made (run_vms_on_single_host (sample_env True True True)
           (JList [JObj (display_cfg None)]) JNull sample_ssh False True) [])) = [(False, True)]"
    by (simp add: calls_made_def sample_runs(2))
  from t m c v have
    "set (concat (map host_task_flags
      (calls_made (main (sample_env True True True)
         \<lparr>json_path = ''vms.json'', overwrite_image_flag = False\<rparr>) []))) \<subseteq> {(False, True)}"
    "set (concat (map vm_task_flags
        (calls_made (run_vms_on_single_host (sample_env True True True)
           (JList [JObj (display_cfg None)]) JNull sample_ssh False True) []))) \<subseteq> {(False, True)}"
    "prefix ([] @ [CheckFileExists (JStr ''vm.qcow2''), ValidateImageUse (JStr ''vm.qcow2'') (Some True)])
        (snd (launch_single_vm (sample_env True True True) (JObj (display_cfg None)) False True []))"
    "probe_primary (sample_env True True True) (JObj (display_cfg None)) True [] =
       (Inr (), [] @ [CheckFileExists (JStr ''vm.qcow2''), ValidateImageUse (JStr ''vm.qcow2'') (Some True)])"
    by simp_all
  with f1 f2 m c busy v sample_runs(3) show ?thesis by blast
qed

section \<open>Unknown interface types\<close>

lemma io_bind_fail: "io_bind (io_fail e) f = io_fail e"
  by (rule ext) (simp add: io_bind_def io_fail_def)

lemma io_bind_lift_Inr: "io_bind (io_lift (Inr x)) f = f x"
  by (rule ext) (simp add: io_bind_def io_lift_def)

lemma io_bind_assoc:
  "io_bind (io_bind m f) g = io_bind m (\<lambda>x. io_bind (f x) g)"
  by (rule ext) (simp add: io_bind_def split: prod.split sum.split)

lemma interfaces_loop_then_unknown:
  assumes "py_getitem x ''type'' = Inr ty" and "\<not> supported_type ty"
  shows "interfaces_loop E (good @ x # rest) i args =
           io_bind (interfaces_loop E good i args) (\<lambda>_. io_fail (SysExit (UnknownInterfaceType ty)))"
proof (induction good arbitrary: i args)
  case Nil
  from assms show ?case
    by (simp add: supported_type_def io_lift_def io_bind_def io_return_def)
next
  case (Cons g good)
  show ?case
    unfolding append_Cons interfaces_loop.simps Cons.IH io_bind_assoc
    by (simp add: if_distrib [of "\<lambda>m. io_bind m _"] io_bind_assoc io_bind_fail cong: if_cong)
qed

lemma interfaces_created_append:
  "interfaces_created (xs @ ys) = interfaces_created xs @ interfaces_created ys"
  by (simp add: interfaces_created_def)

lemma interfaces_loop_created:
  "interfaces_loop E ifs i args tr = (Inr a, tr') \<Longrightarrow>
   \<exists>evs. tr' = tr @ evs \<and> interfaces_created evs = ifs"
proof (induction ifs arbitrary: i args tr)
  case Nil
  then show ?case by (simp add: io_Inr interfaces_created_def)
next
  case (Cons x ifs)
  from Cons.prems obtain ty where ty: "py_getitem x ''type'' = Inr ty"
    and body: "(if ty = JStr ''macvtap'' then
         io_bind (macvtap_create E x) (\<lambda>_.
         io_bind (macvtap_get_args E x i) (\<lambda>frag.
         interfaces_loop E ifs (i + 1) (args @ frag)))
       else if ty = JStr ''tap'' then
         io_bind (tap_create E x) (\<lambda>_.
         io_bind (tap_get_args E x i) (\<lambda>frag.
         interfaces_loop E ifs (i + 1) (args @ frag)))
       else if ty = JStr ''user'' then
         io_bind (user_create E x) (\<lambda>_.
         io_bind (user_get_args E x) (\<lambda>frag.
         interfaces_loop E ifs i (args @ frag)))
       else io_fail (SysExit (UnknownInterfaceType ty))) tr = (Inr a, tr')"
    by (auto simp: io_bind_Inr io_lift_Inr)
  consider (macvtap) "ty = JStr ''macvtap''" | (tap) "ty = JStr ''tap''"
    | (user) "ty = JStr ''user''"
    | (other) "ty \<noteq> JStr ''macvtap''" "ty \<noteq> JStr ''tap''" "ty \<noteq> JStr ''user''"
    by blast
  then show ?case
  proof cases
    case macvtap
    with body obtain frag where
      "interfaces_loop E ifs (i + 1) (args @ frag) (tr @ [MacVtapCreate x, MacVtapGetArgs x i])
         = (Inr a, tr')"
      by (auto simp: io_Inr macvtap_create_def macvtap_get_args_def)
    from Cons.IH [OF this] obtain evs where
      evs: "tr' = (tr @ [MacVtapCreate x, MacVtapGetArgs x i]) @ evs"
        "interfaces_created evs = ifs"
      by blast
    then show ?thesis
      by (intro exI [of _ "[MacVtapCreate x, MacVtapGetArgs x i] @ evs"])
         (simp add: interfaces_created_def)
  next
    case tap
    with body obtain frag where
      "interfaces_loop E ifs (i + 1) (args @ frag) (tr @ [TapCreate x, TapGetArgs x i])
         = (Inr a, tr')"
      by (auto simp: io_Inr tap_create_def tap_get_args_def)
    from Cons.IH [OF this] obtain evs where
      evs: "tr' = (tr @ [TapCreate x, TapGetArgs x i]) @ evs"
        "interfaces_created evs = ifs"
      by blast
    then show ?thesis
      by (intro exI [of _ "[TapCreate x, TapGetArgs x i] @ evs"])
         (simp add: interfaces_created_def)
  next
    case user
    with body obtain frag where
      "interfaces_loop E ifs i (args @ frag) (tr @ [UserCreate x, UserGetArgs x]) = (Inr a, tr')"
      by (auto simp: io_Inr user_create_def user_get_args_def)
    from Cons.IH [OF this] obtain evs where
      evs: "tr' = (tr @ [UserCreate x, UserGetArgs x]) @ evs"
        "interfaces_created evs = ifs"
      by blast
    then show ?thesis
      by (intro exI [of _ "[UserCreate x, UserGetArgs x] @ evs"])
         (simp add: interfaces_created_def)
  next
    case other
    with body show ?thesis by (simp add: io_Inr)
  qed
qed

lemma keys_before_split:
  "map_of kvs k = Some v \<Longrightarrow> \<exists>after. kvs = keys_before k kvs @ (k, v) # after"
  by (induction kvs) (auto simp: keys_before_def split: if_splits)

lemma keys_before_fresh: "k \<notin> fst ` set (keys_before k kvs)"
  unfolding keys_before_def by (auto dest: set_takeWhileD)

lemma config_loop_then_unknown:
  assumes "map_of cfg ''interfaces'' = Some (JList (good @ x # rest))"
    and "py_getitem x ''type'' = Inr ty" and "\<not> supported_type ty"
  shows "config_loop E cfg args dm =
           io_bind (config_loop E (keys_before ''interfaces'' cfg) args dm) (\<lambda>(a, d).
           io_bind (interfaces_loop E good 4 a) (\<lambda>_.
           io_fail (SysExit (UnknownInterfaceType ty))))"
proof -
  from keys_before_split [OF assms(1)] obtain after where
    cfg: "cfg = keys_before ''interfaces'' cfg @ (''interfaces'', JList (good @ x # rest)) # after"
    by blast
  have step: "config_loop E ((''interfaces'', JList (good @ x # rest)) # after) a d =
      io_bind (interfaces_loop E good 4 a) (\<lambda>_. io_fail (SysExit (UnknownInterfaceType ty)))"
    for a d
    unfolding config_loop_Cons
    by (simp add: io_bind_lift_Inr interfaces_loop_then_unknown [OF assms(2,3)]
        io_bind_assoc io_bind_fail)
  have "config_loop E cfg args dm =
      config_loop E (keys_before ''interfaces'' cfg @ (''interfaces'', JList (good @ x # rest)) # after) args dm"
    using cfg by simp
  also have "\<dots> = io_bind (config_loop E (keys_before ''interfaces'' cfg) args dm) (\<lambda>(a, d).
           config_loop E ((''interfaces'', JList (good @ x # rest)) # after) a d)"
    by (rule ext) (rule config_loop_append)
  finally show ?thesis unfolding step .
qed

lemma launch_then_unknown:
  assumes "map_of cfg ''interfaces'' = Some (JList (good @ x # rest))"
    and "py_getitem x ''type'' = Inr ty" and "\<not> supported_type ty"
  shows "launch_single_vm E (JObj cfg) ow kill =
           io_bind (probe_primary E (JObj cfg) kill) (\<lambda>_.
           io_bind (config_loop E (keys_before ''interfaces'' cfg)
                      [''-accel'', ''kvm'', ''-cpu'', ''max''] []) (\<lambda>(a, d).
           io_bind (interfaces_loop E good 4 a) (\<lambda>_.
           io_fail (SysExit (UnknownInterfaceType ty)))))"
  unfolding launch_single_vm_def build_args_def
  by (simp add: config_loop_then_unknown [OF assms] io_bind_lift_Inr io_bind_assoc io_bind_fail
      split_def)

lemma key_step_Inl: "key_step E key v args dm = Inl e \<Longrightarrow> e = SysExit (UnknownDisplayMode v)"
  by (auto simp: key_step_def split: if_splits)

lemma probe_primary_error:
  "probe_primary E (JObj cfg) kill tr = (Inl e, tr') \<Longrightarrow>
   e = KeyError ''remote_disk_image_path'' \<or> e = Raised \<or> (\<exists>rp. e = SysExit (ImageInUse rp))"
  by (auto simp: probe_primary_def check_file_exists_def validate_image_use_def io_defs
      split: option.splits bool.splits if_splits)

lemma config_loop_before_error:
  "''interfaces'' \<notin> fst ` set kvs \<Longrightarrow> config_loop E kvs args dm tr = (Inl e, tr') \<Longrightarrow>
   \<exists>v. e = SysExit (UnknownDisplayMode v)"
proof (induction kvs arbitrary: args dm)
  case Nil
  then show ?case by (simp add: io_return_def)
next
  case (Cons kv kvs)
  obtain key v where kv: "kv = (key, v)" by (cases kv)
  with Cons.prems(1) have k: "key \<noteq> ''interfaces''" and r: "''interfaces'' \<notin> fst ` set kvs"
    by auto
  show ?case
  proof (cases "key_step E key v args dm")
    case (Inl e')
    with Cons.prems(2) k key_step_Inl [OF Inl] show ?thesis
      unfolding kv config_loop_Cons by (auto simp: io_fail_def)
  next
    case (Inr ad)
    obtain a d where "ad = (a, d)" by (cases ad)
    with Inr k Cons.prems(2) have "config_loop E kvs a d tr = (Inl e, tr')"
      unfolding kv config_loop_Cons by simp
    from Cons.IH [OF r this] show ?thesis .
  qed
qed

lemma interfaces_loop_good_error:
  "list_all supported_entry good \<Longrightarrow> interfaces_loop E good i args tr = (Inl e, tr') \<Longrightarrow>
   e = Raised"
proof (induction good arbitrary: i args tr)
  case Nil
  then show ?case by (simp add: io_return_def)
next
  case (Cons g good)
  from Cons.prems(1) have g: "supported_entry g" and good: "list_all supported_entry good"
    by simp_all
  from g obtain t where t: "py_getitem g ''type'' = Inr t" "supported_type t"
    by (auto simp: supported_entry_def split: sum.splits)
  note IH = Cons.IH [OF good]
  from t(2) consider (macvtap) "t = JStr ''macvtap''" | (tap) "t = JStr ''tap''"
    | (user) "t = JStr ''user''"
    by (auto simp: supported_type_def)
  then show ?case
  proof cases
    case macvtap
    with t(1) Cons.prems(2) show ?thesis
      by (auto simp: io_bind_Inl io_lift_def macvtap_create_def macvtap_get_args_def call_def
          split: option.splits dest: IH)
  next
    case tap
    with t(1) Cons.prems(2) show ?thesis
      by (auto simp: io_bind_Inl io_lift_def tap_create_def tap_get_args_def call_def
          split: option.splits dest: IH)
  next
    case user
    with t(1) Cons.prems(2) show ?thesis
      by (auto simp: io_bind_Inl io_lift_def user_create_def user_get_args_def call_def
          split: option.splits dest: IH)
  qed
qed

lemma probe_primary_Inr_first:
  assumes "probe_primary E (JObj cfg) kill tr = (Inr (), tr1)"
  shows "\<exists>rp evs. map_of cfg ''remote_disk_image_path'' = Some rp
           \<and> tr1 = tr @ CheckFileExists rp # evs \<and> list_all is_probe_event evs"
  using assms
  by (auto simp: probe_primary_def check_file_exists_def validate_image_use_def io_Inr
      split: option.splits if_splits)

lemma probe_events_quiet:
  "list_all is_probe_event evs \<Longrightarrow>
   transfers evs = [] \<and> filter is_launch evs = [] \<and> interfaces_created evs = []"
proof (induction evs)
  case Nil
  show ?case by (simp add: transfers_def interfaces_created_def)
next
  case (Cons ev evs)
  then show ?case by (cases ev) (simp_all add: transfers_def interfaces_created_def)
qed

lemma interface_events_quiet:
  "list_all is_interface_event evs \<Longrightarrow> transfers evs = [] \<and> filter is_launch evs = []"
proof (induction evs)
  case Nil
  show ?case by (simp add: transfers_def)
next
  case (Cons ev evs)
  then show ?case by (cases ev) (simp_all add: transfers_def)
qed

lemma unknown_interface_runs:
  assumes m: "map_of cfg ''interfaces'' = Some (JList (good @ x # rest))"
    and t: "py_getitem x ''type'' = Inr ty" and u: "\<not> supported_type ty"
    and p: "probe_primary E (JObj cfg) kill tr = (Inr (), tr1)"
    and c: "config_loop E (keys_before ''interfaces'' cfg)
              [''-accel'', ''kvm'', ''-cpu'', ''max''] [] tr1 = (Inr (a, d), tr2)"
    and i: "interfaces_loop E good 4 a tr2 = (Inr a', tr3)"
  shows "launch_single_vm E (JObj cfg) ow kill tr = (Inl (SysExit (UnknownInterfaceType ty)), tr3)"
  unfolding launch_then_unknown [OF m t u]
  using p c i by (simp add: io_bind_def io_fail_def)

lemma unknown_interface_fails:
  assumes m: "map_of cfg ''interfaces'' = Some (JList (good @ x # rest))"
    and g: "list_all supported_entry good"
    and t: "py_getitem x ''type'' = Inr ty" and u: "\<not> supported_type ty"
  shows "\<exists>e evs.
           launch_single_vm E (JObj cfg) ow kill tr = (Inl e, tr @ evs)
         \<and> transfers evs = [] \<and> filter is_launch evs = []
         \<and> (e = SysExit (UnknownInterfaceType ty) \<or> e = Raised
             \<or> e = KeyError ''remote_disk_image_path''
             \<or> (\<exists>rp. e = SysExit (ImageInUse rp))
             \<or> (\<exists>v. e = SysExit (UnknownDisplayMode v)))
         \<and> (e = SysExit (UnknownInterfaceType ty) \<longrightarrow>
              (\<exists>rp evs'. map_of cfg ''remote_disk_image_path'' = Some rp
                 \<and> evs = CheckFileExists rp # evs')
              \<and> interfaces_created evs = good)"
proof -
  let ?base = "[''-accel'', ''kvm'', ''-cpu'', ''max'']"
  let ?before = "keys_before ''interfaces'' cfg"
  note decomp = launch_then_unknown [OF m t u, of E ow kill]
  obtain r1 tr1 where p: "probe_primary E (JObj cfg) kill tr = (r1, tr1)"
    by (cases "probe_primary E (JObj cfg) kill tr")
  from emitsD [OF emits_probe p] obtain e1 where
    e1: "tr1 = tr @ e1" "list_all is_probe_event e1" by blast
  note q1 = probe_events_quiet [OF e1(2)]
  show ?thesis
  proof (cases r1)
    case (Inl e)
    from p Inl have l: "launch_single_vm E (JObj cfg) ow kill tr = (Inl e, tr @ e1)"
      unfolding decomp using e1(1) by (simp add: io_bind_def)
    from probe_primary_error [OF p [unfolded Inl]]
    have e: "e = KeyError ''remote_disk_image_path'' \<or> e = Raised \<or> (\<exists>rp. e = SysExit (ImageInUse rp))" .
    then have "e \<noteq> SysExit (UnknownInterfaceType ty)" by auto
    with l q1 e show ?thesis by blast
  next
    case (Inr u1)
    with p have p': "probe_primary E (JObj cfg) kill tr = (Inr (), tr1)" by simp
    from probe_primary_Inr_first [OF p'] e1(1) obtain rp e1' where
      rp: "map_of cfg ''remote_disk_image_path'' = Some rp" "e1 = CheckFileExists rp # e1'"
      by auto
    obtain r2 tr2 where c: "config_loop E ?before ?base [] tr1 = (r2, tr2)"
      by (cases "config_loop E ?before ?base [] tr1")
    from config_loop_no_interfaces [OF keys_before_fresh, of E cfg ?base "[]" tr1] c
    have tr2: "tr2 = tr1" by simp
    show ?thesis
    proof (cases r2)
      case (Inl e)
      from p' c Inl tr2 e1(1) have l: "launch_single_vm E (JObj cfg) ow kill tr = (Inl e, tr @ e1)"
        unfolding decomp by (simp add: io_bind_def)
      from config_loop_before_error [OF keys_before_fresh c [unfolded Inl]]
      obtain v where e: "e = SysExit (UnknownDisplayMode v)" by blast
      then have "e \<noteq> SysExit (UnknownInterfaceType ty)" by simp
      with l q1 e show ?thesis by blast
    next
      case (Inr ad)
      obtain a d where ad: "ad = (a, d)" by (cases ad)
      with c Inr tr2 have c': "config_loop E ?before ?base [] tr1 = (Inr (a, d), tr1)" by simp
      obtain r3 tr3 where i: "interfaces_loop E good 4 a tr1 = (r3, tr3)"
        by (cases "interfaces_loop E good 4 a tr1")
      from emitsD [OF emits_interfaces i] obtain e3 where
        e3: "tr3 = tr1 @ e3" "list_all is_interface_event e3" by blast
      note q3 = interface_events_quiet [OF e3(2)]
      from q1 q3 have quiet: "transfers (e1 @ e3) = []" "filter is_launch (e1 @ e3) = []"
        by (simp_all add: transfers_def)
      show ?thesis
      proof (cases r3)
        case (Inl e)
        from p' c' i Inl e1(1) e3(1)
        have l: "launch_single_vm E (JObj cfg) ow kill tr = (Inl e, tr @ (e1 @ e3))"
          unfolding decomp by (simp add: io_bind_def)
        from interfaces_loop_good_error [OF g i [unfolded Inl]] have e: "e = Raised" .
        then have "e \<noteq> SysExit (UnknownInterfaceType ty)" by simp
        with l quiet e show ?thesis by blast
      next
        case (Inr a')
        from p' c' i Inr e1(1) e3(1)
        have l: "launch_single_vm E (JObj cfg) ow kill tr =
                   (Inl (SysExit (UnknownInterfaceType ty)), tr @ (e1 @ e3))"
          unfolding decomp by (simp add: io_bind_def io_fail_def)
        from interfaces_loop_created [OF i [unfolded Inr]] e3(1)
        have "interfaces_created e3 = good" by auto
        with q1 have cr: "interfaces_created (e1 @ e3) = good"
          by (simp add: interfaces_created_append)
        from rp(2) have "e1 @ e3 = CheckFileExists rp # (e1' @ e3)" by simp
        with l quiet cr rp(1) show ?thesis by blast
      qed
    qed
  qed
qed

lemma spawn_vms_calls:
  "spawn_vms_loop E vs ssh ow kill tr = (Inr u, tr') \<Longrightarrow>
   tr' = tr @ concat (map (\<lambda>vm. [CreateConnection ssh, CreateTask (LaunchSingleVm vm ow kill)]) vs)"
proof (induction vs arbitrary: tr)
  case Nil
  then show ?case by (simp add: io_Inr)
next
  case (Cons vm vs)
  from Cons.prems have
    "spawn_vms_loop E vs ssh ow kill
       (tr @ [CreateConnection ssh, CreateTask (LaunchSingleVm vm ow kill)]) = (Inr u, tr')"
    by (auto simp: io_Inr create_connection_from_config_def create_task_def)
  from Cons.IH [OF this] show ?case by simp
qed

lemma sublist_member:
  "v \<in> set vs \<Longrightarrow> sublist (f v) (pre @ concat (map f vs))"
proof -
  assume "v \<in> set vs"
  then obtain xs ys where "vs = xs @ v # ys" by (auto dest: split_list)
  then have "pre @ concat (map f vs) = (pre @ concat (map f xs)) @ f v @ concat (map f ys)"
    by simp
  then show ?thesis unfolding sublist_def by blast
qed

lemma host_opens_session:
  assumes "fst (run_vms_on_single_host E (JList vms) hn ssh ow kill tr) = Inr ()"
    and "vm \<in> set vms"
  shows "sublist [CreateConnection ssh, CreateTask (LaunchSingleVm vm ow kill)]
           (calls_made (run_vms_on_single_host E (JList vms) hn ssh ow kill) tr)"
proof -
  obtain tr' where r: "run_vms_on_single_host E (JList vms) hn ssh ow kill tr = (Inr (), tr')"
    using assms(1) by (cases "run_vms_on_single_host E (JList vms) hn ssh ow kill tr") simp
  let ?head = "io_bind (io_lift (py_get ssh ''host'' JNull)) (\<lambda>host.
     io_bind (getpass E host) (\<lambda>_.
     (if hn \<noteq> JNull
              then io_bind (create_connection_from_config E ssh) (\<lambda>_.
                     setup_host_network E hn)
              else io_return ())))"
  from r obtain tr1 where
    h: "?head tr = (Inr (), tr1)" and
    s: "spawn_vms_loop E vms ssh ow kill tr1 = (Inr (), tr')"
    unfolding run_vms_on_single_host_def by (auto simp: io_Inr)
  have "emits (\<lambda>ev. True) ?head"
    unfolding setup_host_network_def
    by (intro emits_bind emits_if emits_lift emits_return emits_host_calls
        emits_any [OF emits_host_network [of "UNIV"]]) simp_all
  from emitsD [OF this h] obtain pre where pre: "tr1 = tr @ pre" by blast
  from spawn_vms_calls [OF s] pre
  have "calls_made (run_vms_on_single_host E (JList vms) hn ssh ow kill) tr =
          pre @ concat (map (\<lambda>vm. [CreateConnection ssh, CreateTask (LaunchSingleVm vm ow kill)]) vms)"
    by (simp add: calls_made_def r)
  with sublist_member [OF assms(2), of "\<lambda>vm. [CreateConnection ssh, CreateTask (LaunchSingleVm vm ow kill)]" pre]
  show ?thesis by simp
qed

text \<open>
  Claim C8, as amended. When the list under \<^verbatim>\<open>interfaces\<close> has an entry whose type is
  not macvtap, tap or user, and the entries before it are of these types, the launch of
  that VM ends in an error without transferring an image and without starting the
  hypervisor. When the steps before that entry complete (the probes of the primary disk,
  the keys before \<^verbatim>\<open>interfaces\<close>, the creation of the entries before it), the error is
  the diagnostic of the unknown interface type with \<^verbatim>\<open>sys.exit(1)\<close>, raised right after
  them with no further call; and whenever the error is that diagnostic, the primary disk
  has been probed first and exactly the entries before it have been created, in order.
  Otherwise the launch ends at the earlier failure: the path key is missing, the primary
  image is in use, an earlier \<^verbatim>\<open>display_mode\<close> is unknown, or a collaborator raises.
  The type is looked at inside the launch only: a \<open>run_vms_on_single_host\<close> that gets
  as far as its \<^verbatim>\<open>gather\<close> has opened a session for the VM and then created its task,
  whatever its \<^verbatim>\<open>interfaces\<close> hold.
\<close>

theorem unknown_interface_rejected:
  assumes "map_of cfg ''interfaces'' = Some (JList (good @ x # rest))"
    and "list_all supported_entry good"
    and "py_getitem x ''type'' = Inr ty" and "\<not> supported_type ty"
  shows "(\<exists>e evs.
            launch_single_vm E (JObj cfg) overwrite_image kill_running_vms tr = (Inl e, tr @ evs)
          \<and> transfers evs = [] \<and> filter is_launch evs = []
          \<and> (e = SysExit (UnknownInterfaceType ty) \<or> e = Raised
              \<or> e = KeyError ''remote_disk_image_path''
              \<or> (\<exists>rp. e = SysExit (ImageInUse rp))
              \<or> (\<exists>v. e = SysExit (UnknownDisplayMode v)))
          \<and> (e = SysExit (UnknownInterfaceType ty) \<longrightarrow>
               (\<exists>rp evs'. map_of cfg ''remote_disk_image_path'' = Some rp
                  \<and> evs = CheckFileExists rp # evs')
               \<and> interfaces_created evs = good))
       \<and> (probe_primary E (JObj cfg) kill_running_vms tr = (Inr (), tr1)
            \<and> config_loop E (keys_before ''interfaces'' cfg)
                [''-accel'', ''kvm'', ''-cpu'', ''max''] [] tr1 = (Inr (a, d), tr2)
            \<and> interfaces_loop E good 4 a tr2 = (Inr a', tr3) \<longrightarrow>
          launch_single_vm E (JObj cfg) overwrite_image kill_running_vms tr =
            (Inl (SysExit (UnknownInterfaceType ty)), tr3))
       \<and> (fst (run_vms_on_single_host E (JList vms) host_network ssh_configuration
                 overwrite_image kill_running_vms tr0) = Inr ()
            \<and> JObj cfg \<in> set vms \<longrightarrow>
          sublist [CreateConnection ssh_configuration,
                   CreateTask (LaunchSingleVm (JObj cfg) overwrite_image kill_running_vms)]
            (calls_made (run_vms_on_single_host E (JList vms) host_network ssh_configuration
                           overwrite_image kill_running_vms) tr0))"
proof (intro conjI impI)
  show "\<exists>e evs.
            launch_single_vm E (JObj cfg) overwrite_image kill_running_vms tr = (Inl e, tr @ evs)
          \<and> transfers evs = [] \<and> filter is_launch evs = []
          \<and> (e = SysExit (UnknownInterfaceType ty) \<or> e = Raised
              \<or> e = KeyError ''remote_disk_image_path''
              \<or> (\<exists>rp. e = SysExit (ImageInUse rp))
              \<or> (\<exists>v. e = SysExit (UnknownDisplayMode v)))
          \<and> (e = SysExit (UnknownInterfaceType ty) \<longrightarrow>
               (\<exists>rp evs'. map_of cfg ''remote_disk_image_path'' = Some rp
                  \<and> evs = CheckFileExists rp # evs')
               \<and> interfaces_created evs = good)"
    by (rule unknown_interface_fails [OF assms])
next
  assume "probe_primary E (JObj cfg) kill_running_vms tr = (Inr (), tr1)
            \<and> config_loop E (keys_before ''interfaces'' cfg)
                [''-accel'', ''kvm'', ''-cpu'', ''max''] [] tr1 = (Inr (a, d), tr2)
            \<and> interfaces_loop E good 4 a tr2 = (Inr a', tr3)"
  then show "launch_single_vm E (JObj cfg) overwrite_image kill_running_vms tr =
            (Inl (SysExit (UnknownInterfaceType ty)), tr3)"
    using unknown_interface_runs [OF assms(1,3,4)] by blast
next
  assume "fst (run_vms_on_single_host E (JList vms) host_network ssh_configuration
                 overwrite_image kill_running_vms tr0) = Inr ()
            \<and> JObj cfg \<in> set vms"
  then show "sublist [CreateConnection ssh_configuration,
                   CreateTask (LaunchSingleVm (JObj cfg) overwrite_image kill_running_vms)]
            (calls_made (run_vms_on_single_host E (JList vms) host_network ssh_configuration
                           overwrite_image kill_running_vms) tr0)"
    using host_opens_session by blast
qed

lemma launch_wifi:
  "launch_single_vm (sample_env False False True) (JObj wifi_cfg) False True [] =
     (Inl (SysExit (UnknownInterfaceType (JStr ''wifi''))),
      [CheckFileExists (JStr ''vm.qcow2''), TapCreate (iface ''tap''), TapGetArgs (iface ''tap'') 4])"
  by (simp add: launch_single_vm_def build_args_def probe_primary_def stage_disks_def
      call_defs io_defs sample_env_def wifi_cfg_def iface_def)

lemma host_wifi:
  "run_vms_on_single_host (sample_env False False True) (JList [JObj wifi_cfg]) JNull sample_ssh
     False True [] =
     (Inr (), [GetPass (JStr ''host1''), CreateConnection sample_ssh,
               CreateTask (LaunchSingleVm (JObj wifi_cfg) False True)])"
  by (simp add: run_vms_on_single_host_def call_defs io_defs sample_env_def sample_ssh_def)

lemma wifi_steps:
  "probe_primary (sample_env False False True) (JObj wifi_cfg) True [] =
     (Inr (), [CheckFileExists (JStr ''vm.qcow2'')])"
  "keys_before ''interfaces'' wifi_cfg = [(''remote_disk_image_path'', JStr ''vm.qcow2'')]"
  "config_loop (sample_env False False True) [(''remote_disk_image_path'', JStr ''vm.qcow2'')]
     [''-accel'', ''kvm'', ''-cpu'', ''max''] [] [CheckFileExists (JStr ''vm.qcow2'')] =
     (Inr ([''-accel'', ''kvm'', ''-cpu'', ''max''], []), [CheckFileExists (JStr ''vm.qcow2'')])"
  "interfaces_loop (sample_env False False True) [iface ''tap''] 4
     [''-accel'', ''kvm'', ''-cpu'', ''max''] [CheckFileExists (JStr ''vm.qcow2'')] =
     (Inr [''-accel'', ''kvm'', ''-cpu'', ''max'', ''-tap'', ''4''],
      [CheckFileExists (JStr ''vm.qcow2''), TapCreate (iface ''tap''), TapGetArgs (iface ''tap'') 4])"
  by (simp_all add: probe_primary_def keys_before_def call_defs io_defs sample_env_def wifi_cfg_def
      iface_def string_of_nat.simps digit_char_def)

theorem unknown_interface_rejected_witness:
  "map_of wifi_cfg ''interfaces'' = Some (JList ([iface ''tap''] @ iface ''wifi'' # []))
   \<and> list_all supported_entry [iface ''tap'']
   \<and> py_getitem (iface ''wifi'') ''type'' = Inr (JStr ''wifi'')
   \<and> \<not> supported_type (JStr ''wifi'')
   \<and> (\<exists>e evs.
         launch_single_vm (sample_env False False True) (JObj wifi_cfg) False True [] =
           (Inl e, [] @ evs)
       \<and> transfers evs = [] \<and> filter is_launch evs = []
       \<and> (e = SysExit (UnknownInterfaceType (JStr ''wifi'')) \<or> e = Raised
           \<or> e = KeyError ''remote_disk_image_path''
           \<or> (\<exists>rp. e = SysExit (ImageInUse rp))
           \<or> (\<exists>v. e = SysExit (UnknownDisplayMode v)))
       \<and> (e = SysExit (UnknownInterfaceType (JStr ''wifi'')) \<longrightarrow>
            (\<exists>rp evs'. map_of wifi_cfg ''remote_disk_image_path'' = Some rp
               \<and> evs = CheckFileExists rp # evs')
            \<and> interfaces_created evs = [iface ''tap'']))
   \<and> probe_primary (sample_env False False True) (JObj wifi_cfg) True [] =
       (Inr (), [CheckFileExists (JStr ''vm.qcow2'')])
   \<and> config_loop (sample_env False False True) (keys_before ''interfaces'' wifi_cfg)
        [''-accel'', ''kvm'', ''-cpu'', ''max''] [] [CheckFileExists (JStr ''vm.qcow2'')] =
       (Inr ([''-accel'', ''kvm'', ''-cpu'', ''max''], []), [CheckFileExists (JStr ''vm.qcow2'')])
   \<and> interfaces_loop (sample_env False False True) [iface ''tap''] 4
        [''-accel'', ''kvm'', ''-cpu'', ''max''] [CheckFileExists (JStr ''vm.qcow2'')] =
       (Inr [''-accel'', ''kvm'', ''-cpu'', ''max'', ''-tap'', ''4''],
        [CheckFileExists (JStr ''vm.qcow2''), TapCreate (iface ''tap''),
         TapGetArgs (iface ''tap'') 4])
   \<and> launch_single_vm (sample_env False False True) (JObj wifi_cfg) False True [] =
       (Inl (SysExit (UnknownInterfaceType (JStr ''wifi''))),
        [CheckFileExists (JStr ''vm.qcow2''), TapCreate (iface ''tap''),
         TapGetArgs (iface ''tap'') 4])
   \<and> interfaces_created
        [CheckFileExists (JStr ''vm.qcow2''), TapCreate (iface ''tap''),
         TapGetArgs (iface ''tap'') 4] = [iface ''tap'']
   \<and> fst (run_vms_on_single_host (sample_env False False True) (JList [JObj wifi_cfg]) JNull
            sample_ssh False True []) = Inr ()
   \<and> JObj wifi_cfg \<in> set [JObj wifi_cfg]
   \<and> sublist [CreateConnection sample_ssh, CreateTask (LaunchSingleVm (JObj wifi_cfg) False True)]
        (calls_made (run_vms_on_single_host (sample_env False False True) (JList [JObj wifi_cfg])
                       JNull sample_ssh False True) [])"
proof -
  let ?E = "sample_env False False True"
  let ?base = "[''-accel'', ''kvm'', ''-cpu'', ''max'']"
  let ?tr1 = "[CheckFileExists (JStr ''vm.qcow2'')]"
  let ?tr3 = "[CheckFileExists (JStr ''vm.qcow2''), TapCreate (iface ''tap''),
               TapGetArgs (iface ''tap'') 4]"
  have m: "map_of wifi_cfg ''interfaces'' = Some (JList ([iface ''tap''] @ iface ''wifi'' # []))"
    by (simp add: wifi_cfg_def)
  have g: "list_all supported_entry [iface ''tap'']"
    by (simp add: supported_entry_def supported_type_def iface_def)
  have t: "py_getitem (iface ''wifi'') ''type'' = Inr (JStr ''wifi'')"
    by (simp add: iface_def)
  have u: "\<not> supported_type (JStr ''wifi'')" by (simp add: supported_type_def)
  have c: "config_loop ?E (keys_before ''interfaces'' wifi_cfg) ?base [] ?tr1 =
             (Inr (?base, []), ?tr1)"
    unfolding wifi_steps(2) by (rule wifi_steps(3))
  have h: "fst (run_vms_on_single_host ?E (JList [JObj wifi_cfg]) JNull sample_ssh False True [])
             = Inr ()"
    by (simp add: host_wifi)
  have v: "JObj wifi_cfg \<in> set [JObj wifi_cfg]" by simp
  note inst = unknown_interface_rejected [OF m g t u, of ?E False True "[]" ?tr1 ?base "[]" ?tr1
      "[''-accel'', ''kvm'', ''-cpu'', ''max'', ''-tap'', ''4'']" ?tr3
      "[JObj wifi_cfg]" JNull sample_ssh "[]"]
  from inst have A: "\<exists>e evs.
         launch_single_vm ?E (JObj wifi_cfg) False True [] = (Inl e, [] @ evs)
       \<and> transfers evs = [] \<and> filter is_launch evs = []
       \<and> (e = SysExit (UnknownInterfaceType (JStr ''wifi'')) \<or> e = Raised
           \<or> e = KeyError ''remote_disk_image_path''
           \<or> (\<exists>rp. e = SysExit (ImageInUse rp))
           \<or> (\<exists>v. e = SysExit (UnknownDisplayMode v)))
       \<and> (e = SysExit (UnknownInterfaceType (JStr ''wifi'')) \<longrightarrow>
            (\<exists>rp evs'. map_of wifi_cfg ''remote_disk_image_path'' = Some rp
               \<and> evs = CheckFileExists rp # evs')
            \<and> interfaces_created evs = [iface ''tap''])"
    by (rule conjunct1)
  from inst wifi_steps(1) c wifi_steps(4)
  have B: "launch_single_vm ?E (JObj wifi_cfg) False True [] =
       (Inl (SysExit (UnknownInterfaceType (JStr ''wifi''))), ?tr3)"
    by blast
  from A B have D: "interfaces_created ?tr3 = [iface ''tap'']"
    by auto
  from inst h v
  have C: "sublist [CreateConnection sample_ssh, CreateTask (LaunchSingleVm (JObj wifi_cfg) False True)]
        (calls_made (run_vms_on_single_host ?E (JList [JObj wifi_cfg]) JNull sample_ssh False True) [])"
    by blast
  from m g t u A wifi_steps(1) c wifi_steps(4) B D h v C show ?thesis by blast
qed

text \<open>
  The claim as stated (the error comes before any remote session is opened for the VM)
  fails: \<open>run_vms_on_single_host\<close> opens the session before it creates the task, and the
  task probes the primary disk and creates the tap interface before it meets the entry
  of type wifi.
\<close>

theorem session_before_validation_counterexample:
  "map_of wifi_cfg ''interfaces'' = Some (JList [iface ''tap'', iface ''wifi''])
   \<and> run_vms_on_single_host (sample_env False False True) (JList [JObj wifi_cfg]) JNull sample_ssh
       False True [] =
       (Inr (), [GetPass (JStr ''host1''), CreateConnection sample_ssh,
                 CreateTask (LaunchSingleVm (JObj wifi_cfg) False True)])
   \<and> launch_single_vm (sample_env False False True) (JObj wifi_cfg) False True [] =
       (Inl (SysExit (UnknownInterfaceType (JStr ''wifi''))),
        [CheckFileExists (JStr ''vm.qcow2''), TapCreate (iface ''tap''),
         TapGetArgs (iface ''tap'') 4])"
proof -
  have "map_of wifi_cfg ''interfaces'' = Some (JList [iface ''tap'', iface ''wifi''])"
    by (simp add: wifi_cfg_def)
  with host_wifi launch_wifi show ?thesis by blast
qed

end
